theory Spec2Isabelle
  imports Complex_Main
begin

section \<open>Python exceptions\<close>

text \<open>
  Every raise of the modelled sources is a value of this type.  \<open>UnknownKeyword k\<close> is
  \<^verbatim>\<open>Exception(f'Unknown keyword {k}')\<close> of \<^verbatim>\<open>read_obj\<close>, \<open>UnknownBackend b\<close> is
  \<^verbatim>\<open>ValueError(f'Unknown backend: {b}')\<close> of \<^verbatim>\<open>RastContext\<close>, \<open>WrongShape\<close> is the
  \<^verbatim>\<open>ValueError\<close> of \<^verbatim>\<open>rasterize_vertex_attr\<close>, \<open>TorchError\<close> is the exception of a
  tensor operation on shapes it does not accept, \<open>ExternalError\<close> is whatever a collaborator
  outside the modelled sources raises.
\<close>

datatype error =
    AssertionError
  | ValueError
  | IndexError
  | RuntimeError
  | ZeroDivisionError
  | UnknownKeyword string
  | UnknownBackend string
  | WrongShape
  | TorchError
  | ExternalError

section \<open>wavefront\_obj.py: \<^verbatim>\<open>read_obj\<close>\<close>

subsection \<open>The string operations the parser uses\<close>

text \<open>
  A Python \<^verbatim>\<open>str\<close> is modelled as a \<open>string\<close> whose characters are the code points
  below 256.  \<open>is_space\<close> is \<^verbatim>\<open>str.isspace\<close> on those code points: TAB, LF, VT, FF, CR,
  the separators 0x1C to 0x1F, SPACE, NEL (0x85) and NBSP (0xA0).
\<close>

definition is_space :: "char \<Rightarrow> bool" where
  "is_space c = (of_char c \<in> {9, 10, 11, 12, 13, 28, 29, 30, 31, 32, 133, 160 :: nat})"

text \<open>
  \<^verbatim>\<open>line.strip().split()\<close>: the maximal runs of non-whitespace characters, in order.
  (\<^verbatim>\<open>split()\<close> without a separator drops leading and trailing whitespace itself, so the
  \<^verbatim>\<open>strip()\<close> before it changes nothing.)  \<open>cur\<close> is the token being read, reversed.
\<close>

fun split_acc :: "string \<Rightarrow> string \<Rightarrow> string list" where
  "split_acc cur [] = (if cur = [] then [] else [rev cur])"
| "split_acc cur (c # cs) =
     (if is_space c
      then (if cur = [] then split_acc [] cs else rev cur # split_acc [] cs)
      else split_acc (c # cur) cs)"

definition split :: "string \<Rightarrow> string list" where
  "split line = split_acc [] line"

text \<open>\<^verbatim>\<open>e.split('/')\<close>: the pieces between separators, empty pieces kept.\<close>

fun split_on :: "char \<Rightarrow> string \<Rightarrow> string list" where
  "split_on sep [] = [[]]"
| "split_on sep (c # cs) =
     (if c = sep then [] # split_on sep cs
      else (case split_on sep cs of
              [] \<Rightarrow> [[c]]
            | x # xs \<Rightarrow> (c # x) # xs))"

subsection \<open>The parser\<close>

text \<open>A list comprehension whose element expression may raise: left to right, first error wins.\<close>

fun traverse :: "('a \<Rightarrow> error + 'b) \<Rightarrow> 'a list \<Rightarrow> error + 'b list" where
  "traverse g [] = Inr []"
| "traverse g (x # xs) =
     (case g x of
        Inl e \<Rightarrow> Inl e
      | Inr y \<Rightarrow> (case traverse g xs of Inl e \<Rightarrow> Inl e | Inr ys \<Rightarrow> Inr (y # ys)))"

text \<open>
  The builtins \<^verbatim>\<open>float\<close> and \<^verbatim>\<open>int\<close> are parameters \<open>float_of\<close> and \<open>int_of\<close>; \<open>None\<close> is
  their \<^verbatim>\<open>ValueError\<close>.
\<close>

definition py_float :: "(string \<Rightarrow> real option) \<Rightarrow> string \<Rightarrow> error + real" where
  "py_float float_of e = (case float_of e of None \<Rightarrow> Inl ValueError | Some x \<Rightarrow> Inr x)"

definition py_int :: "(string \<Rightarrow> int option) \<Rightarrow> string \<Rightarrow> error + int" where
  "py_int int_of i = (case int_of i of None \<Rightarrow> Inl ValueError | Some n \<Rightarrow> Inr n)"

text \<open>\<^verbatim>\<open>pad0 = lambda l: l + [0] * (3 - len(l))\<close>; a non-positive count repeats nothing.\<close>

definition pad0 :: "int list \<Rightarrow> int list" where
  "pad0 l = l @ replicate (3 - length l) 0"

text \<open>\<^verbatim>\<open>pad0([int(i) if i else 0 for i in e.split('/')])\<close>, one face corner.\<close>

definition corner :: "(string \<Rightarrow> int option) \<Rightarrow> string \<Rightarrow> error + int list" where
  "corner int_of e =
     (case traverse (\<lambda>i. if i \<noteq> [] then py_int int_of i else Inr 0) (split_on CHR ''/'' e) of
        Inl err \<Rightarrow> Inl err
      | Inr l \<Rightarrow> Inr (pad0 l))"

text \<open>
  The nine lists the function fills.  An entry of \<open>obj_usemtl\<close>, \<open>obj_o\<close> and \<open>obj_s\<close> is the
  dictionary \<^verbatim>\<open>{'name': sq[1], 'f': len(f)}\<close> as a pair.
\<close>

record obj =
  obj_mtllib :: "string list"
  obj_v :: "real list list"
  obj_vt :: "real list list"
  obj_vn :: "real list list"
  obj_vp :: "real list list"
  obj_f :: "int list list list"
  obj_o :: "(string \<times> nat) list"
  obj_s :: "(string \<times> nat) list"
  obj_usemtl :: "(string \<times> nat) list"

definition empty_obj :: obj where
  "empty_obj = \<lparr>obj_mtllib = [], obj_v = [], obj_vt = [], obj_vn = [], obj_vp = [],
                 obj_f = [], obj_o = [], obj_s = [], obj_usemtl = []\<rparr>"

text \<open>\<^verbatim>\<open>assert c\<close> followed by the rest of the branch.\<close>

definition asserting :: "bool \<Rightarrow> (error + 'a) \<Rightarrow> error + 'a" where
  "asserting c k = (if c then k else Inl AssertionError)"

text \<open>\<^verbatim>\<open>xs.append([float(e) for e in sq[1:]])\<close>, the update given as \<open>upd\<close>.\<close>

definition append_floats ::
  "(string \<Rightarrow> real option) \<Rightarrow> string list \<Rightarrow> (real list \<Rightarrow> obj) \<Rightarrow> error + obj" where
  "append_floats float_of sq upd =
     (case traverse (py_float float_of) (tl sq) of
        Inl err \<Rightarrow> Inl err
      | Inr xs \<Rightarrow> Inr (upd xs))"

text \<open>
  One pass of the loop body over one line; \<open>st\<close> holds the lists filled so far.  \<open>sq[0]\<close> of
  an empty token list is the \<^verbatim>\<open>IndexError\<close> of the first comparison, \<open>sq[1]\<close> of a
  one-token \<^verbatim>\<open>s\<close> line is the one of its branch, and \<open>sq[0][0]\<close> of an empty token
  would be one too (\<open>split\<close> never returns an empty token, see \<open>split_tokens_nonempty\<close>).
\<close>

definition read_line ::
  "(string \<Rightarrow> real option) \<Rightarrow> (string \<Rightarrow> int option) \<Rightarrow> bool \<Rightarrow> obj \<Rightarrow> string \<Rightarrow> error + obj" where
  "read_line float_of int_of ignore_unknown st line =
     (let sq = split line in
      case sq of
        [] \<Rightarrow> Inl IndexError
      | sq0 # rest \<Rightarrow>
          if sq0 = ''v'' then
            asserting (4 \<le> length sq \<and> length sq \<le> 5)
              (append_floats float_of sq (\<lambda>xs. st\<lparr>obj_v := obj_v st @ [xs]\<rparr>))
          else if sq0 = ''vt'' then
            asserting (2 \<le> length sq \<and> length sq \<le> 4)
              (append_floats float_of sq (\<lambda>xs. st\<lparr>obj_vt := obj_vt st @ [xs]\<rparr>))
          else if sq0 = ''vn'' then
            asserting (length sq = 4)
              (append_floats float_of sq (\<lambda>xs. st\<lparr>obj_vn := obj_vn st @ [xs]\<rparr>))
          else if sq0 = ''vp'' then
            asserting (2 \<le> length sq \<and> length sq \<le> 4)
              (append_floats float_of sq (\<lambda>xs. st\<lparr>obj_vp := obj_vp st @ [xs]\<rparr>))
          else if sq0 = ''f'' then
            (case traverse (corner int_of) rest of
               Inl err \<Rightarrow> Inl err
             | Inr face \<Rightarrow> Inr (st\<lparr>obj_f := obj_f st @ [face]\<rparr>))
          else if sq0 = ''usemtl'' then
            asserting (length sq = 2)
              (Inr (st\<lparr>obj_usemtl := obj_usemtl st @ [(sq ! 1, length (obj_f st))]\<rparr>))
          else if sq0 = ''o'' then
            asserting (length sq = 2)
              (Inr (st\<lparr>obj_o := obj_o st @ [(sq ! 1, length (obj_f st))]\<rparr>))
          else if sq0 = ''s'' then
            (case rest of
               [] \<Rightarrow> Inl IndexError
             | sq1 # _ \<Rightarrow> Inr (st\<lparr>obj_s := obj_s st @ [(sq1, length (obj_f st))]\<rparr>))
          else if sq0 = ''mtllib'' then
            asserting (length sq = 2)
              (Inr (st\<lparr>obj_mtllib := obj_mtllib st @ [sq ! 1]\<rparr>))
          else
            (case sq0 of
               [] \<Rightarrow> Inl IndexError
             | c0 # _ \<Rightarrow>
                 if c0 = CHR ''#'' then Inr st
                 else if \<not> ignore_unknown then Inl (UnknownKeyword sq0)
                 else Inr st))"

text \<open>The \<^verbatim>\<open>for line in lines\<close> loop: the first line that raises ends the call.\<close>

fun read_lines ::
  "(string \<Rightarrow> real option) \<Rightarrow> (string \<Rightarrow> int option) \<Rightarrow> bool \<Rightarrow> obj \<Rightarrow> string list \<Rightarrow> error + obj" where
  "read_lines float_of int_of ignore_unknown st [] = Inr st"
| "read_lines float_of int_of ignore_unknown st (line # lines) =
     (case read_line float_of int_of ignore_unknown st line of
        Inl err \<Rightarrow> Inl err
      | Inr st' \<Rightarrow> read_lines float_of int_of ignore_unknown st' lines)"

text \<open>
  \<^verbatim>\<open>read_obj\<close> on the list \<^verbatim>\<open>lines\<close> that \<^verbatim>\<open>readlines()\<close> returned (each line with its
  line terminator); opening and decoding the file is outside the model.
\<close>

definition read_obj ::
  "(string \<Rightarrow> real option) \<Rightarrow> (string \<Rightarrow> int option) \<Rightarrow> bool \<Rightarrow> string list \<Rightarrow> error + obj" where
  "read_obj float_of int_of ignore_unknown lines =
     read_lines float_of int_of ignore_unknown empty_obj lines"

subsection \<open>Notions used to state the parser's properties\<close>

text \<open>The first token of a line, the one the \<^verbatim>\<open>if\<close>/\<^verbatim>\<open>elif\<close> chain compares; \<open>None\<close> on a blank line.\<close>

definition directive :: "string \<Rightarrow> string option" where
  "directive line = (case split line of [] \<Rightarrow> None | sq0 # _ \<Rightarrow> Some sq0)"

definition known_directives :: "string list" where
  "known_directives = [''v'', ''vt'', ''vn'', ''vp'', ''f'', ''usemtl'', ''o'', ''s'', ''mtllib'']"

text \<open>A line with a first token that is neither a known directive nor starts with \<^verbatim>\<open>#\<close>.\<close>

definition unknown_line :: "string \<Rightarrow> bool" where
  "unknown_line line =
     (case directive line of
        None \<Rightarrow> False
      | Some sq0 \<Rightarrow> sq0 \<notin> set known_directives \<and> take 1 sq0 \<noteq> ''#'')"

text \<open>A non-empty index text without a slash.\<close>

definition plain :: "string \<Rightarrow> bool" where
  "plain a = (a \<noteq> [] \<and> CHR ''/'' \<notin> set a)"

text \<open>What the \<^verbatim>\<open>f\<close> and the \<^verbatim>\<open>v\<close> branch compute from their line alone.\<close>

definition parse_face :: "(string \<Rightarrow> int option) \<Rightarrow> string \<Rightarrow> error + int list list" where
  "parse_face int_of line = traverse (corner int_of) (tl (split line))"

definition parse_floats :: "(string \<Rightarrow> real option) \<Rightarrow> string \<Rightarrow> error + real list" where
  "parse_floats float_of line = traverse (py_float float_of) (tl (split line))"

text \<open>
  Concrete number readers for the worked examples: an optional minus sign and decimal digits.
  On such texts they agree with \<^verbatim>\<open>int\<close> and \<^verbatim>\<open>float\<close>; every other text is rejected here.
\<close>

fun dec_nat :: "nat \<Rightarrow> string \<Rightarrow> nat option" where
  "dec_nat acc [] = Some acc"
| "dec_nat acc (c # cs) =
     (if 48 \<le> (of_char c :: nat) \<and> (of_char c :: nat) \<le> 57
      then dec_nat (10 * acc + (of_char c - 48)) cs else None)"

definition dec_int :: "string \<Rightarrow> int option" where
  "dec_int s =
     (case s of
        [] \<Rightarrow> None
      | c # cs \<Rightarrow>
          if c = CHR ''-'' then (if cs = [] then None else map_option (\<lambda>n. - int n) (dec_nat 0 cs))
          else map_option int (dec_nat 0 s))"

definition dec_float :: "string \<Rightarrow> real option" where
  "dec_float s = map_option real_of_int (dec_int s)"

section \<open>Tensors\<close>

text \<open>
  A tensor is its shape and its elements by index list.  Floating-point elements are modelled
  as real numbers.  Only the elements at indices within the shape are meaningful.
\<close>

record 'a tensor =
  shape :: "nat list"
  elems :: "nat list \<Rightarrow> 'a"

type_synonym rtensor = "real tensor"
type_synonym itensor = "int tensor"
type_synonym btensor = "bool tensor"

definition ndim :: "'a tensor \<Rightarrow> nat" where
  "ndim t = length (shape t)"

definition numel :: "'a tensor \<Rightarrow> nat" where
  "numel t = prod_list (shape t)"

text \<open>\<open>idx\<close> is an index into a tensor of shape \<open>s\<close>.\<close>

definition in_range :: "nat list \<Rightarrow> nat list \<Rightarrow> bool" where
  "in_range s idx = list_all2 (\<lambda>i d. i < d) idx s"

text \<open>A 0-dimensional tensor, \<^verbatim>\<open>torch.tensor(x)\<close>.\<close>

definition scalar :: "'a \<Rightarrow> 'a tensor" where
  "scalar x = \<lparr>shape = [], elems = \<lambda>_. x\<rparr>"

text \<open>An elementwise operation on one tensor (arithmetic with a Python number, a comparison
  with one, \<^verbatim>\<open>.float()\<close>).\<close>

definition tmap :: "('a \<Rightarrow> 'b) \<Rightarrow> 'a tensor \<Rightarrow> 'b tensor" where
  "tmap g t = \<lparr>shape = shape t, elems = \<lambda>idx. g (elems t idx)\<rparr>"

text \<open>\<^verbatim>\<open>torch.eye(n)\<close>.\<close>

definition eye :: "nat \<Rightarrow> rtensor" where
  "eye n = \<lparr>shape = [n, n], elems = \<lambda>idx. if idx ! 0 = idx ! 1 then 1 else 0\<rparr>"

subsection \<open>Broadcasting\<close>

text \<open>
  The broadcast of two shapes, aligned at their last dimensions: two sizes agree when they are
  equal or one of them is 1.  \<open>bshape_rev\<close> works on the reversed shapes.
\<close>

fun bshape_rev :: "nat list \<Rightarrow> nat list \<Rightarrow> nat list option" where
  "bshape_rev [] ys = Some ys"
| "bshape_rev (x # xs) [] = Some (x # xs)"
| "bshape_rev (x # xs) (y # ys) =
     (if x = y \<or> y = 1 then map_option ((#) x) (bshape_rev xs ys)
      else if x = 1 then map_option ((#) y) (bshape_rev xs ys)
      else None)"

definition bshape :: "nat list \<Rightarrow> nat list \<Rightarrow> nat list option" where
  "bshape s1 s2 = map_option rev (bshape_rev (rev s1) (rev s2))"

text \<open>The index into an operand of shape \<open>s\<close> that the index \<open>idx\<close> of the result reads.\<close>

definition bidx :: "nat list \<Rightarrow> nat list \<Rightarrow> nat list" where
  "bidx s idx = map2 (\<lambda>d i. if d = 1 then 0 else i) s (drop (length idx - length s) idx)"

definition broadcast2 :: "('a \<Rightarrow> 'b \<Rightarrow> 'c) \<Rightarrow> 'a tensor \<Rightarrow> 'b tensor \<Rightarrow> error + 'c tensor" where
  "broadcast2 g a b =
     (case bshape (shape a) (shape b) of
        None \<Rightarrow> Inl TorchError
      | Some s \<Rightarrow>
          Inr \<lparr>shape = s, elems = \<lambda>idx. g (elems a (bidx (shape a) idx)) (elems b (bidx (shape b) idx))\<rparr>)"

text \<open>An in-place operation \<^verbatim>\<open>a op= b\<close>: the broadcast result must have the shape of \<open>a\<close>.\<close>

definition inplace2 :: "('a \<Rightarrow> 'b \<Rightarrow> 'a) \<Rightarrow> 'a tensor \<Rightarrow> 'b tensor \<Rightarrow> error + 'a tensor" where
  "inplace2 g a b =
     (case broadcast2 g a b of
        Inl e \<Rightarrow> Inl e
      | Inr r \<Rightarrow> if shape r = shape a then Inr r else Inl TorchError)"

subsection \<open>Views\<close>

text \<open>Row-major position of an index and back.\<close>

fun ravel :: "nat list \<Rightarrow> nat list \<Rightarrow> nat" where
  "ravel (d # ds) (i # is) = i * prod_list ds + ravel ds is"
| "ravel _ _ = 0"

fun unravel :: "nat list \<Rightarrow> nat \<Rightarrow> nat list" where
  "unravel [] k = []"
| "unravel (d # ds) k = (k div prod_list ds) # unravel ds (k mod prod_list ds)"

text \<open>\<^verbatim>\<open>t.reshape(*new)\<close> with every size given.\<close>

definition reshape :: "nat list \<Rightarrow> 'a tensor \<Rightarrow> error + 'a tensor" where
  "reshape new t =
     (if prod_list new = numel t
      then Inr \<lparr>shape = new, elems = \<lambda>idx. elems t (unravel (shape t) (ravel new idx))\<rparr>
      else Inl TorchError)"

text \<open>\<^verbatim>\<open>t.reshape(-1, *rest)\<close>: the first size is inferred.\<close>

definition reshape_infer :: "nat list \<Rightarrow> 'a tensor \<Rightarrow> error + 'a tensor" where
  "reshape_infer rest t =
     (let p = prod_list rest in
      if p = 0 \<or> numel t mod p \<noteq> 0 then Inl TorchError
      else reshape ((numel t div p) # rest) t)"

text \<open>\<^verbatim>\<open>t.flatten(d, d + 1)\<close>: dimensions \<open>d\<close> and \<open>d + 1\<close> become one.\<close>

definition flatten :: "nat \<Rightarrow> 'a tensor \<Rightarrow> error + 'a tensor" where
  "flatten d t =
     (if ndim t < d + 2 then Inl TorchError
      else reshape (take d (shape t) @ [shape t ! d * shape t ! (d + 1)] @ drop (d + 2) (shape t)) t)"

text \<open>\<^verbatim>\<open>t.flip(1)\<close>.\<close>

definition flip1 :: "'a tensor \<Rightarrow> error + 'a tensor" where
  "flip1 t =
     (if ndim t < 2 then Inl TorchError
      else Inr \<lparr>shape = shape t, elems = \<lambda>idx. elems t (idx[1 := shape t ! 1 - 1 - idx ! 1])\<rparr>)"

text \<open>Position of \<open>k\<close> in \<open>perm\<close>.\<close>

fun index_of :: "nat list \<Rightarrow> nat \<Rightarrow> nat" where
  "index_of [] k = 0"
| "index_of (p # ps) k = (if p = k then 0 else Suc (index_of ps k))"

text \<open>\<^verbatim>\<open>t.permute(*perm)\<close>: dimension \<open>n\<close> of the result is dimension \<open>perm ! n\<close> of \<open>t\<close>.\<close>

definition permute :: "nat list \<Rightarrow> 'a tensor \<Rightarrow> error + 'a tensor" where
  "permute perm t =
     (if sort perm = [0..<ndim t]
      then Inr \<lparr>shape = map (\<lambda>p. shape t ! p) perm,
                elems = \<lambda>idx. elems t (map (\<lambda>k. idx ! index_of perm k) [0..<ndim t])\<rparr>
      else Inl TorchError)"

text \<open>\<^verbatim>\<open>t.transpose(-1, -2)\<close>.\<close>

definition transpose_last :: "'a tensor \<Rightarrow> error + 'a tensor" where
  "transpose_last t =
     (let n = ndim t in
      if n < 2 then Inl TorchError
      else Inr \<lparr>shape = (shape t)[n - 2 := shape t ! (n - 1), n - 1 := shape t ! (n - 2)],
                elems = \<lambda>idx. elems t (idx[n - 2 := idx ! (n - 1), n - 1 := idx ! (n - 2)])\<rparr>)"

text \<open>\<^verbatim>\<open>t[..., k]\<close>.\<close>

definition select_last :: "nat \<Rightarrow> 'a tensor \<Rightarrow> error + 'a tensor" where
  "select_last k t =
     (if shape t = [] \<or> last (shape t) \<le> k then Inl IndexError
      else Inr \<lparr>shape = butlast (shape t), elems = \<lambda>idx. elems t (idx @ [k])\<rparr>)"

text \<open>\<^verbatim>\<open>t[k]\<close>.\<close>

definition select_first :: "nat \<Rightarrow> 'a tensor \<Rightarrow> error + 'a tensor" where
  "select_first k t =
     (if shape t = [] \<or> hd (shape t) \<le> k then Inl IndexError
      else Inr \<lparr>shape = tl (shape t), elems = \<lambda>idx. elems t (k # idx)\<rparr>)"

text \<open>\<^verbatim>\<open>t[..., :1]\<close>; a slice never raises on a tensor with a last dimension.\<close>

definition first_of_last :: "'a tensor \<Rightarrow> error + 'a tensor" where
  "first_of_last t =
     (if shape t = [] then Inl IndexError
      else Inr \<lparr>shape = butlast (shape t) @ [min 1 (last (shape t))], elems = elems t\<rparr>)"

text \<open>\<^verbatim>\<open>t[..., :-n, :, :]\<close>: the last \<open>n\<close> entries of the third dimension from the end go.\<close>

definition drop_channels :: "nat \<Rightarrow> 'a tensor \<Rightarrow> error + 'a tensor" where
  "drop_channels n t =
     (if ndim t < 3 then Inl IndexError
      else Inr \<lparr>shape = (shape t)[ndim t - 3 := shape t ! (ndim t - 3) - n], elems = elems t\<rparr>)"

text \<open>\<^verbatim>\<open>t[..., -1, :, :]\<close>: the last entry of the third dimension from the end.\<close>

definition last_channel :: "'a tensor \<Rightarrow> error + 'a tensor" where
  "last_channel t =
     (let d = ndim t - 3 in
      if ndim t < 3 \<or> shape t ! d = 0 then Inl IndexError
      else Inr \<lparr>shape = take d (shape t) @ drop (d + 1) (shape t),
                elems = \<lambda>idx. elems t (take d idx @ [shape t ! d - 1] @ drop d idx)\<rparr>)"

text \<open>\<^verbatim>\<open>t.unsqueeze(d)\<close> for \<open>0 \<le> d \<le> ndim\<close>; \<^verbatim>\<open>t.unsqueeze(-1)\<close> is \<open>unsqueeze (ndim t) t\<close>.\<close>

definition unsqueeze :: "nat \<Rightarrow> 'a tensor \<Rightarrow> error + 'a tensor" where
  "unsqueeze d t =
     (if ndim t < d then Inl IndexError
      else Inr \<lparr>shape = take d (shape t) @ [1] @ drop d (shape t),
                elems = \<lambda>idx. elems t (take d idx @ drop (d + 1) idx)\<rparr>)"

text \<open>
  \<^verbatim>\<open>t.expand(b, -1, -1)\<close>: a two-dimensional tensor gets a new first dimension of size \<open>b\<close>; a
  three-dimensional one keeps its first dimension when it is \<open>b\<close> and repeats it when it is 1.
\<close>

definition expand3 :: "nat \<Rightarrow> 'a tensor \<Rightarrow> error + 'a tensor" where
  "expand3 b t =
     (if ndim t = 2 then Inr \<lparr>shape = b # shape t, elems = \<lambda>idx. elems t (tl idx)\<rparr>
      else if ndim t = 3 \<and> hd (shape t) = b then Inr t
      else if ndim t = 3 \<and> hd (shape t) = 1
        then Inr \<lparr>shape = b # tl (shape t), elems = \<lambda>idx. elems t (0 # tl idx)\<rparr>
      else Inl TorchError)"

text \<open>\<^verbatim>\<open>torch.cat([a, b], dim=-1)\<close>.\<close>

definition cat_last :: "'a tensor \<Rightarrow> 'a tensor \<Rightarrow> error + 'a tensor" where
  "cat_last a b =
     (if shape a \<noteq> [] \<and> shape b \<noteq> [] \<and> butlast (shape a) = butlast (shape b)
      then Inr \<lparr>shape = butlast (shape a) @ [last (shape a) + last (shape b)],
                elems = \<lambda>idx. if last idx < last (shape a) then elems a idx
                              else elems b (butlast idx @ [last idx - last (shape a)])\<rparr>
      else Inl TorchError)"

text \<open>
  \<^verbatim>\<open>torch.nn.functional.pad(t, [1, 1, 1, 1], mode='replicate')\<close>: one more row and column on
  each side of the last two dimensions, holding the nearest element.  Three- and
  four-dimensional tensors with non-empty last two dimensions are accepted.
\<close>

definition pad_replicate :: "'a tensor \<Rightarrow> error + 'a tensor" where
  "pad_replicate t =
     (let n = ndim t; h = shape t ! (n - 2); w = shape t ! (n - 1) in
      if (n \<noteq> 3 \<and> n \<noteq> 4) \<or> h = 0 \<or> w = 0 then Inl TorchError
      else Inr \<lparr>shape = (shape t)[n - 2 := h + 2, n - 1 := w + 2],
                elems = \<lambda>idx. elems t (idx[n - 2 := min (h - 1) (idx ! (n - 2) - 1),
                                          n - 1 := min (w - 1) (idx ! (n - 1) - 1)])\<rparr>)"

text \<open>An in-place update of the elements selected by \<open>sel\<close>, as \<^verbatim>\<open>t[0, :, 1] -= x\<close>.\<close>

definition update_where :: "(nat list \<Rightarrow> bool) \<Rightarrow> ('a \<Rightarrow> 'a) \<Rightarrow> 'a tensor \<Rightarrow> 'a tensor" where
  "update_where sel g t = \<lparr>shape = shape t, elems = \<lambda>idx. if sel idx then g (elems t idx) else elems t idx\<rparr>"

section \<open>Calls to collaborators\<close>

text \<open>
  The functions below call code that is not part of the modelled sources: the rasterization
  library (\<^verbatim>\<open>nvdiffrast.torch\<close>, imported as \<^verbatim>\<open>dr\<close>), matrix multiplication, and the sibling
  modules \<^verbatim>\<open>transforms\<close>, \<^verbatim>\<open>utils\<close> and \<^verbatim>\<open>mesh\<close>.  They are the fields of an environment;
  each returns its result or the exception it raises.  \<open>'c\<close> is the type of the library's
  context objects.  A device is given by its name.
\<close>

record 'c env =
  RasterizeGLContext :: "string option \<Rightarrow> error + 'c"
  RasterizeCudaContext :: "string option \<Rightarrow> error + 'c"
  dr_rasterize :: "'c \<Rightarrow> rtensor \<Rightarrow> itensor \<Rightarrow> nat \<times> nat \<Rightarrow> error + rtensor \<times> rtensor"
  dr_interpolate ::
    "rtensor \<Rightarrow> rtensor \<Rightarrow> itensor \<Rightarrow> rtensor \<Rightarrow> nat list option \<Rightarrow> error + rtensor \<times> rtensor"
  dr_antialias :: "rtensor \<Rightarrow> rtensor \<Rightarrow> rtensor \<Rightarrow> itensor \<Rightarrow> error + rtensor"
  matmul :: "rtensor \<Rightarrow> rtensor \<Rightarrow> error + rtensor"
  extrinsics_to_view :: "rtensor \<Rightarrow> error + rtensor"
  intrinsics_to_perspective :: "rtensor \<Rightarrow> real \<Rightarrow> real \<Rightarrow> error + rtensor"
  image_mesh :: "nat \<Rightarrow> nat \<Rightarrow> error + rtensor \<times> itensor"
  unproject_cv :: "rtensor \<Rightarrow> rtensor \<Rightarrow> rtensor \<Rightarrow> rtensor \<Rightarrow> error + rtensor"
  triangulate :: "itensor \<Rightarrow> rtensor option \<Rightarrow> bool option \<Rightarrow> error + itensor"
  linearize_depth :: "rtensor \<Rightarrow> real \<Rightarrow> real \<Rightarrow> error + rtensor"

text \<open>
  One constructor per collaborator, with the arguments of the call.  \<open>Call_triangulate\<close> holds
  the keyword arguments \<^verbatim>\<open>vertices\<close> and \<^verbatim>\<open>backslash\<close>, \<open>None\<close> for one that is not passed;
  \<open>Call_rasterize\<close> holds \<^verbatim>\<open>resolution\<close> as (height, width).
\<close>

datatype 'c call =
    Call_RasterizeGLContext "string option"
  | Call_RasterizeCudaContext "string option"
  | Call_rasterize 'c rtensor itensor "nat \<times> nat"
  | Call_interpolate rtensor rtensor itensor rtensor "nat list option"
  | Call_antialias rtensor rtensor rtensor itensor
  | Call_matmul rtensor rtensor
  | Call_extrinsics_to_view rtensor
  | Call_intrinsics_to_perspective rtensor real real
  | Call_image_mesh nat nat
  | Call_unproject_cv rtensor rtensor rtensor rtensor
  | Call_triangulate itensor "rtensor option" "bool option"
  | Call_linearize_depth rtensor real real

text \<open>
  A computation is the list of the calls it made, in order, and its outcome.  A computation
  that raises keeps the calls made so far and makes no further one.
\<close>

type_synonym ('c, 'a) traced = "'c call list \<times> (error + 'a)"

definition t_return :: "'a \<Rightarrow> ('c, 'a) traced" where
  "t_return x = ([], Inr x)"

definition t_raise :: "error \<Rightarrow> ('c, 'a) traced" where
  "t_raise e = ([], Inl e)"

definition t_bind :: "('c, 'a) traced \<Rightarrow> ('a \<Rightarrow> ('c, 'b) traced) \<Rightarrow> ('c, 'b) traced" where
  "t_bind m k =
     (case m of
        (tr, Inl e) \<Rightarrow> (tr, Inl e)
      | (tr, Inr x) \<Rightarrow> (case k x of (tr', r) \<Rightarrow> (tr @ tr', r)))"

text \<open>A call to a collaborator, and a tensor operation modelled above (no call).\<close>

definition t_call :: "'c call \<Rightarrow> error + 'a \<Rightarrow> ('c, 'a) traced" where
  "t_call c r = ([c], r)"

definition t_torch :: "error + 'a \<Rightarrow> ('c, 'a) traced" where
  "t_torch r = ([], r)"

definition t_assert :: "bool \<Rightarrow> ('c, unit) traced" where
  "t_assert c = (if c then t_return () else t_raise AssertionError)"

section \<open>utils3d/torch\_/rasterization.py\<close>

subsection \<open>\<^verbatim>\<open>RastContext\<close>\<close>

record 'c RastContext =
  nvd_ctx :: 'c

text \<open>\<^verbatim>\<open>RastContext.__init__(self, nvd_ctx=None, *, backend='gl', device=None)\<close>.\<close>

definition RastContext_init ::
  "'c env \<Rightarrow> 'c option \<Rightarrow> string \<Rightarrow> string option \<Rightarrow> ('c, 'c RastContext) traced" where
  "RastContext_init env nvd backend device =
     (case nvd of
        Some c \<Rightarrow> t_return \<lparr>nvd_ctx = c\<rparr>
      | None \<Rightarrow>
          if backend = ''gl'' then
            t_bind (t_call (Call_RasterizeGLContext device) (RasterizeGLContext env device))
              (\<lambda>c. t_return \<lparr>nvd_ctx = c\<rparr>)
          else if backend = ''cuda'' then
            t_bind (t_call (Call_RasterizeCudaContext device) (RasterizeCudaContext env device))
              (\<lambda>c. t_return \<lparr>nvd_ctx = c\<rparr>)
          else t_raise (UnknownBackend backend))"

subsection \<open>\<^verbatim>\<open>rasterize_vertex_attr\<close>\<close>

text \<open>Lines 71 to 78: vertices with 2 or 3 coordinates are completed to 4.\<close>

definition homogeneous :: "rtensor \<Rightarrow> ('c, rtensor) traced" where
  "homogeneous vertices =
     (if last (shape vertices) = 2 then
        t_bind (t_torch (first_of_last vertices)) (\<lambda>col.
        t_bind (t_torch (cat_last vertices (tmap (\<lambda>_. 0) col))) (\<lambda>v3.
        t_torch (cat_last v3 (tmap (\<lambda>_. 1) col))))
      else if last (shape vertices) = 3 then
        t_bind (t_torch (first_of_last vertices)) (\<lambda>col.
        t_torch (cat_last vertices (tmap (\<lambda>_. 1) col)))
      else if last (shape vertices) = 4 then t_return vertices
      else t_raise WrongShape)"

text \<open>
  Line 97, for one element:
  \<^verbatim>\<open>(depth * 0.5 + 0.5) * (depth > 0).float() + (depth == 0).float()\<close>.
\<close>

definition depth_remap :: "real \<Rightarrow> real" where
  "depth_remap d = (d * 0.5 + 0.5) * of_bool (d > 0) + of_bool (d = 0)"

text \<open>\<^verbatim>\<open>mvp = mvp @ m\<close> when \<open>m\<close> is given (lines 81 to 84).\<close>

definition times_opt :: "'c env \<Rightarrow> rtensor \<Rightarrow> rtensor option \<Rightarrow> ('c, rtensor) traced" where
  "times_opt env mvp m =
     (case m of
        None \<Rightarrow> t_return mvp
      | Some x \<Rightarrow> t_call (Call_matmul mvp x) (matmul env mvp x))"

text \<open>\<^verbatim>\<open>t.flip(1).permute(0, 3, 1, 2)\<close> (lines 94 and 99).\<close>

definition flip_permute :: "rtensor \<Rightarrow> ('c, rtensor) traced" where
  "flip_permute t = t_bind (t_torch (flip1 t)) (\<lambda>f. t_torch (permute [0, 3, 1, 2] f))"

text \<open>
  The function returns \<^verbatim>\<open>(image, depth)\<close>, or \<^verbatim>\<open>(image, depth, image_dr)\<close> when
  \<^verbatim>\<open>diff_attrs\<close> is given: the third component is optional here.
\<close>

definition rasterize_vertex_attr ::
  "'c env \<Rightarrow> 'c RastContext \<Rightarrow> rtensor \<Rightarrow> itensor \<Rightarrow> rtensor \<Rightarrow> nat \<Rightarrow> nat \<Rightarrow>
   rtensor option \<Rightarrow> rtensor option \<Rightarrow> rtensor option \<Rightarrow> bool \<Rightarrow> nat list option \<Rightarrow>
   ('c, rtensor \<times> rtensor \<times> rtensor option) traced" where
  "rasterize_vertex_attr env ctx vertices faces attr width height model view perspective
       antialiasing diff_attrs =
     t_bind (t_assert (ndim vertices = 3)) (\<lambda>_.
     t_bind (t_assert (ndim faces = 2)) (\<lambda>_.
     t_bind (homogeneous vertices) (\<lambda>vertices.
     t_bind (times_opt env (case perspective of Some p \<Rightarrow> p | None \<Rightarrow> eye 4) view) (\<lambda>mvp.
     t_bind (times_opt env mvp model) (\<lambda>mvp.
     t_bind (t_torch (transpose_last mvp)) (\<lambda>mvp_t.
     t_bind (t_call (Call_matmul vertices mvp_t) (matmul env vertices mvp_t)) (\<lambda>pos_clip.
     t_bind (t_call (Call_rasterize (nvd_ctx ctx) pos_clip faces (height, width))
                    (dr_rasterize env (nvd_ctx ctx) pos_clip faces (height, width)))
       (\<lambda>(rast_out, rast_db).
     t_bind (t_call (Call_interpolate attr rast_out faces rast_db diff_attrs)
                    (dr_interpolate env attr rast_out faces rast_db diff_attrs))
       (\<lambda>(image, image_dr).
     t_bind (if antialiasing
             then t_call (Call_antialias image rast_out pos_clip faces)
                         (dr_antialias env image rast_out pos_clip faces)
             else t_return image) (\<lambda>image.
     t_bind (flip_permute image) (\<lambda>image.
     t_bind (t_torch (select_last 2 rast_out)) (\<lambda>z.
     t_bind (t_torch (flip1 z)) (\<lambda>depth.
     (let depth = tmap depth_remap depth in
      case diff_attrs of
        Some _ \<Rightarrow> t_bind (flip_permute image_dr) (\<lambda>image_dr. t_return (image, depth, Some image_dr))
      | None \<Rightarrow> t_return (image, depth, None)))))))))))))))"

subsection \<open>\<^verbatim>\<open>warp_image_by_depth\<close>\<close>

text \<open>
  The arguments of a call after \<^verbatim>\<open>ctx\<close>, by name; \<open>None\<close> is Python's \<^verbatim>\<open>None\<close>.  Image sizes
  are natural numbers.
\<close>

record warp_args =
  arg_depth :: rtensor
  arg_image :: "rtensor option"
  arg_mask :: "btensor option"
  arg_width :: "nat option"
  arg_height :: "nat option"
  arg_extrinsics_src :: "rtensor option"
  arg_extrinsics_tgt :: "rtensor option"
  arg_intrinsics_src :: "rtensor option"
  arg_intrinsics_tgt :: "rtensor option"
  arg_near :: real
  arg_far :: real
  arg_antialiasing :: bool
  arg_backslash :: bool
  arg_padding :: int
  arg_return_dr :: bool

record warp_result =
  out_image :: rtensor
  out_depth :: rtensor
  out_mask :: btensor
  out_dr :: "rtensor option"

text \<open>\<^verbatim>\<open>t.shape[-2:]\<close>.\<close>

definition last2 :: "nat list \<Rightarrow> nat list" where
  "last2 s = drop (length s - 2) s"

text \<open>
  Lines 170 to 179: missing extrinsics are the identity, a missing intrinsics matrix is the
  one of the other side, and the assertion holds when all four are then present.
\<close>

definition warp_cameras :: "warp_args \<Rightarrow> ('c, rtensor \<times> rtensor \<times> rtensor \<times> rtensor) traced" where
  "warp_cameras a =
     (let extrinsics_src = (case arg_extrinsics_src a of None \<Rightarrow> eye 4 | Some e \<Rightarrow> e);
          extrinsics_tgt = (case arg_extrinsics_tgt a of None \<Rightarrow> eye 4 | Some e \<Rightarrow> e);
          intrinsics_src = (case arg_intrinsics_src a of None \<Rightarrow> arg_intrinsics_tgt a | Some k \<Rightarrow> Some k);
          intrinsics_tgt = (case arg_intrinsics_tgt a of None \<Rightarrow> intrinsics_src | Some k \<Rightarrow> Some k)
      in case (intrinsics_src, intrinsics_tgt) of
           (Some ks, Some kt) \<Rightarrow> t_return (extrinsics_src, extrinsics_tgt, ks, kt)
         | _ \<Rightarrow> t_raise AssertionError)"

text \<open>A true division by a size: \<^verbatim>\<open>ZeroDivisionError\<close> when the size is 0.\<close>

definition py_div :: "real \<Rightarrow> nat \<Rightarrow> ('c, real) traced" where
  "py_div x n = (if n = 0 then t_raise ZeroDivisionError else t_return (x / real n))"

text \<open>
  Lines 186 to 192: the lattice of the padded image.  \<open>uv\<close> is rescaled, then the copy \<^verbatim>\<open>uv_\<close> (here \<open>uv'\<close>)
  is moved outwards by the padding on its first and last row and column.
\<close>

definition padded_uv :: "int \<Rightarrow> nat \<Rightarrow> nat \<Rightarrow> rtensor \<Rightarrow> ('c, rtensor \<times> rtensor) traced" where
  "padded_uv padding width height uv0 =
     t_bind (py_div (real (width + 2)) width) (\<lambda>scale.
     (let uv = tmap (\<lambda>x. (x - 1 / real (width + 2)) * scale) uv0 in
      t_bind (t_torch (reshape [height + 2, width + 2, 2] uv)) (\<lambda>uv'.
      t_bind (py_div (real_of_int padding) height) (\<lambda>ph.
      (let uv' = update_where (\<lambda>idx. idx ! 0 = 0 \<and> idx ! 2 = 1) (\<lambda>x. x - ph) uv';
           uv' = update_where (\<lambda>idx. idx ! 0 = height + 1 \<and> idx ! 2 = 1) (\<lambda>x. x + ph) uv'
       in
       t_bind (py_div (real_of_int padding) width) (\<lambda>pw.
       (let uv' = update_where (\<lambda>idx. idx ! 1 = 0 \<and> idx ! 2 = 0) (\<lambda>x. x - pw) uv';
            uv' = update_where (\<lambda>idx. idx ! 1 = width + 1 \<and> idx ! 2 = 0) (\<lambda>x. x + pw) uv'
        in
        t_bind (t_torch (reshape_infer [2] uv')) (\<lambda>uv'. t_return (uv, uv')))))))))"

text \<open>\<^verbatim>\<open>pad\<close> of the image when there is one (lines 194 and 195).\<close>

definition pad_opt :: "rtensor option \<Rightarrow> ('c, rtensor option) traced" where
  "pad_opt img =
     (case img of
        None \<Rightarrow> t_return None
      | Some im \<Rightarrow> t_bind (t_torch (pad_replicate im)) (\<lambda>p. t_return (Some p)))"

text \<open>
  Lines 184 to 213: the lattice, the depth and the image the mesh is built from, and the
  unprojected points.  The result is \<open>(uv, faces, image, pts)\<close>.  \<^verbatim>\<open>torch.where\<close> broadcasts
  the mask and the depth; the 0-dimensional far tensor broadcasts to any shape.
\<close>

definition warp_mesh ::
  "'c env \<Rightarrow> warp_args \<Rightarrow> nat \<Rightarrow> nat \<Rightarrow> rtensor \<Rightarrow> rtensor \<Rightarrow>
   ('c, rtensor \<times> itensor \<times> rtensor option \<times> rtensor) traced" where
  "warp_mesh env a width height extrinsics_src intrinsics_src =
     (if arg_padding a > 0 then
        t_bind (t_call (Call_image_mesh (width + 2) (height + 2))
                       (image_mesh env (width + 2) (height + 2))) (\<lambda>(uv, faces).
        t_bind (padded_uv (arg_padding a) width height uv) (\<lambda>(uv, uv').
        t_bind (t_torch (pad_replicate (arg_depth a))) (\<lambda>depth.
        t_bind (pad_opt (arg_image a)) (\<lambda>image.
        t_bind (t_torch (flatten 1 depth)) (\<lambda>depth_flat.
        t_bind (t_call (Call_unproject_cv uv' depth_flat extrinsics_src intrinsics_src)
                       (unproject_cv env uv' depth_flat extrinsics_src intrinsics_src)) (\<lambda>pts.
        t_return (uv, faces, image, pts)))))))
      else
        t_bind (t_call (Call_image_mesh (shape (arg_depth a) ! 2) (shape (arg_depth a) ! 1))
                       (image_mesh env (shape (arg_depth a) ! 2) (shape (arg_depth a) ! 1)))
          (\<lambda>(uv, faces).
        t_bind (case arg_mask a of
                  None \<Rightarrow> t_return (arg_depth a)
                | Some m \<Rightarrow>
                    t_torch (broadcast2 (\<lambda>valid d. if valid then d else arg_far a) m (arg_depth a)))
          (\<lambda>depth.
        t_bind (t_torch (flatten 1 depth)) (\<lambda>depth_flat.
        t_bind (t_call (Call_unproject_cv uv depth_flat extrinsics_src intrinsics_src)
                       (unproject_cv env uv depth_flat extrinsics_src intrinsics_src)) (\<lambda>pts.
        t_return (uv, faces, arg_image a, pts))))))"

text \<open>Lines 215 to 219.\<close>

definition warp_triangulate ::
  "'c env \<Rightarrow> warp_args \<Rightarrow> nat \<Rightarrow> itensor \<Rightarrow> rtensor \<Rightarrow> ('c, itensor) traced" where
  "warp_triangulate env a batch_size faces pts =
     (if batch_size = 1 then
        t_bind (t_torch (select_first 0 pts)) (\<lambda>pts0.
        t_call (Call_triangulate faces (Some pts0) None) (triangulate env faces (Some pts0) None))
      else
        t_call (Call_triangulate faces None (Some (arg_backslash a)))
               (triangulate env faces None (Some (arg_backslash a))))"

text \<open>\<^verbatim>\<open>mask.float().flatten(1, 2).unsqueeze(-1)\<close> (line 234).\<close>

definition mask_attr :: "btensor \<Rightarrow> ('c, rtensor) traced" where
  "mask_attr m =
     t_bind (t_torch (flatten 1 (tmap of_bool m))) (\<lambda>f. t_torch (unsqueeze (ndim f) f))"

text \<open>Lines 222 to 234: the attributes to rasterize and \<^verbatim>\<open>diff_attrs\<close>.\<close>

definition warp_attr ::
  "warp_args \<Rightarrow> nat \<Rightarrow> rtensor \<Rightarrow> rtensor option \<Rightarrow> ('c, rtensor \<times> nat list option) traced" where
  "warp_attr a batch_size uv img =
     t_bind
       (case img of
          Some im \<Rightarrow>
            t_bind (t_torch (permute [0, 2, 3, 1] im)) (\<lambda>p.
            t_bind (t_torch (flatten 1 p)) (\<lambda>attr.
            if arg_return_dr a then
              t_bind (t_torch (expand3 batch_size uv)) (\<lambda>uvb.
              t_bind (t_torch (cat_last attr uvb)) (\<lambda>attr.
              t_return (attr, Some [shape im ! 1, shape im ! 1 + 1])))
            else t_return (attr, None)))
        | None \<Rightarrow>
            t_bind (t_torch (expand3 batch_size uv)) (\<lambda>attr.
            t_return (attr, if arg_return_dr a then Some [0, 1] else None)))
       (\<lambda>(attr, diff_attrs).
          case arg_mask a of
            None \<Rightarrow> t_return (attr, diff_attrs)
          | Some m \<Rightarrow>
              t_bind (mask_attr m) (\<lambda>ma.
              t_bind (t_torch (cat_last attr ma)) (\<lambda>attr. t_return (attr, diff_attrs))))"

text \<open>
  Lines 248 to 251: \<^verbatim>\<open>rast\<close> is unpacked into three names when \<^verbatim>\<open>return_dr\<close> is set and into
  two otherwise; a tuple of the other length is a \<^verbatim>\<open>ValueError\<close>.
\<close>

definition unpack_rast ::
  "bool \<Rightarrow> rtensor \<times> rtensor \<times> rtensor option \<Rightarrow> ('c, rtensor \<times> rtensor \<times> rtensor option) traced" where
  "unpack_rast return_dr rast =
     (case rast of (output_image, screen_depth, dr) \<Rightarrow>
        if return_dr then (case dr of Some d \<Rightarrow> t_return (output_image, screen_depth, Some d)
                           | None \<Rightarrow> t_raise ValueError)
        else (case dr of None \<Rightarrow> t_return (output_image, screen_depth, None)
              | Some _ \<Rightarrow> t_raise ValueError))"

text \<open>Lines 252 to 256: the output mask and the image without the mask channel.\<close>

definition warp_mask ::
  "warp_args \<Rightarrow> nat \<Rightarrow> nat \<Rightarrow> rtensor \<Rightarrow> rtensor \<Rightarrow> ('c, rtensor \<times> btensor) traced" where
  "warp_mask a height width output_image screen_depth =
     (let output_mask = tmap (\<lambda>d. d < 1) screen_depth in
      case arg_mask a of
        None \<Rightarrow> t_return (output_image, output_mask)
      | Some _ \<Rightarrow>
          t_bind (t_torch (drop_channels 1 output_image)) (\<lambda>colour.
          t_bind (t_torch (last_channel output_image)) (\<lambda>rast_mask.
          t_bind (t_torch (reshape_infer [height, width] (tmap (\<lambda>m. m > 0.9999) rast_mask)))
            (\<lambda>valid.
          t_bind (t_torch (inplace2 (\<lambda>x y. x \<and> y) output_mask valid)) (\<lambda>output_mask.
          t_return (colour, output_mask))))))"

text \<open>Lines 248 to 266: what is returned, from the result \<open>rast\<close> of the rasterization.\<close>

definition warp_composite ::
  "'c env \<Rightarrow> warp_args \<Rightarrow> nat \<Rightarrow> nat \<Rightarrow> rtensor \<times> rtensor \<times> rtensor option \<Rightarrow>
   ('c, warp_result) traced" where
  "warp_composite env a height width rast =
     t_bind (unpack_rast (arg_return_dr a) rast) (\<lambda>(output_image, screen_depth, output_dr).
     t_bind (warp_mask a height width output_image screen_depth) (\<lambda>(output_image, output_mask).
     t_bind (if arg_return_dr a \<and> arg_image a \<noteq> None
             then t_torch (drop_channels 2 output_image)
             else t_return output_image) (\<lambda>output_image.
     t_bind (t_call (Call_linearize_depth screen_depth (arg_near a) (arg_far a))
                    (linearize_depth env screen_depth (arg_near a) (arg_far a))) (\<lambda>lin.
     t_bind (t_torch (broadcast2 (\<lambda>x m. x * of_bool m) lin output_mask)) (\<lambda>output_depth.
     t_bind (t_torch (unsqueeze 1 output_mask)) (\<lambda>mask1.
     t_bind (t_torch (broadcast2 (\<lambda>x m. x * of_bool m) output_image mask1)) (\<lambda>output_image.
     t_return \<lparr>out_image = output_image, out_depth = output_depth, out_mask = output_mask,
                out_dr = output_dr\<rparr>)))))))"

text \<open>The height and width of the output (lines 163 to 166).\<close>

definition out_height :: "warp_args \<Rightarrow> nat" where
  "out_height a = (case arg_height a of None \<Rightarrow> shape (arg_depth a) ! 1 | Some h \<Rightarrow> h)"

definition out_width :: "warp_args \<Rightarrow> nat" where
  "out_width a = (case arg_width a of None \<Rightarrow> shape (arg_depth a) ! 2 | Some w \<Rightarrow> w)"

text \<open>Lines 160 to 247: everything up to and including the rasterization.\<close>

definition warp_rasterize ::
  "'c env \<Rightarrow> 'c RastContext \<Rightarrow> warp_args \<Rightarrow> ('c, rtensor \<times> rtensor \<times> rtensor option) traced" where
  "warp_rasterize env ctx a =
     t_bind (t_assert (ndim (arg_depth a) = 3)) (\<lambda>_.
     (let batch_size = shape (arg_depth a) ! 0; width = out_width a; height = out_height a in
      t_bind (t_assert (case arg_image a of
                          None \<Rightarrow> True
                        | Some im \<Rightarrow> last2 (shape im) = last2 (shape (arg_depth a)))) (\<lambda>_.
      t_bind (warp_cameras a) (\<lambda>(extrinsics_src, extrinsics_tgt, intrinsics_src, intrinsics_tgt).
      t_bind (t_call (Call_extrinsics_to_view extrinsics_tgt)
                     (extrinsics_to_view env extrinsics_tgt)) (\<lambda>view_tgt.
      t_bind (t_call (Call_intrinsics_to_perspective intrinsics_tgt (arg_near a) (arg_far a))
                     (intrinsics_to_perspective env intrinsics_tgt (arg_near a) (arg_far a)))
        (\<lambda>perspective_tgt.
      t_bind (warp_mesh env a width height extrinsics_src intrinsics_src)
        (\<lambda>(uv, faces, image, pts).
      t_bind (warp_triangulate env a batch_size faces pts) (\<lambda>faces.
      t_bind (warp_attr a batch_size uv image) (\<lambda>(attr, diff_attrs).
      rasterize_vertex_attr env ctx pts faces attr width height None (Some view_tgt)
        (Some perspective_tgt) (arg_antialiasing a) diff_attrs)))))))))"

definition warp_image_by_depth ::
  "'c env \<Rightarrow> 'c RastContext \<Rightarrow> warp_args \<Rightarrow> ('c, warp_result) traced" where
  "warp_image_by_depth env ctx a =
     t_bind (warp_rasterize env ctx a) (warp_composite env a (out_height a) (out_width a))"

section \<open>A stand-in environment for worked examples\<close>

text \<open>
  Collaborators simple enough to compute with.  The lattice has one vertex per pixel, row by
  row; unprojection puts the depth in the third coordinate; matrix products return their
  left operand; the rasterizer returns the raster \<open>raw\<close> and the interpolation gives pixel
  \<open>(i, j)\<close> of the raster (rows bottom-up) the attributes of vertex \<open>(height - 1 - i) * width + j\<close>;
  antialiasing changes the element at index \<open>idx\<close> by \<open>aa idx\<close>.  Context objects are numbers.
\<close>

definition demo_image_mesh :: "nat \<Rightarrow> nat \<Rightarrow> error + rtensor \<times> itensor" where
  "demo_image_mesh w h =
     Inr (\<lparr>shape = [h * w, 2],
           elems = \<lambda>idx. if idx ! 1 = 0 then (real (idx ! 0 mod w) + 0.5) / real w
                          else (real (idx ! 0 div w) + 0.5) / real h\<rparr>,
          \<lparr>shape = [2 * (h - 1) * (w - 1), 3], elems = \<lambda>_. 0\<rparr>)"

definition demo_unproject_cv :: "rtensor \<Rightarrow> rtensor \<Rightarrow> rtensor \<Rightarrow> rtensor \<Rightarrow> error + rtensor" where
  "demo_unproject_cv uv d e k =
     (if ndim d = 2 \<and> ndim uv = 2 \<and> shape uv ! 0 = shape d ! 1
      then Inr \<lparr>shape = shape d @ [3],
                elems = \<lambda>idx. if idx ! 2 = 2 then elems d [idx ! 0, idx ! 1]
                               else elems uv [idx ! 1, idx ! 2]\<rparr>
      else Inl ExternalError)"

definition demo_rasterize ::
  "(nat list \<Rightarrow> real) \<Rightarrow> nat \<Rightarrow> rtensor \<Rightarrow> itensor \<Rightarrow> nat \<times> nat \<Rightarrow> error + rtensor \<times> rtensor" where
  "demo_rasterize raw c pos tri res =
     Inr (\<lparr>shape = [shape pos ! 0, fst res, snd res, 4], elems = raw\<rparr>,
          \<lparr>shape = [shape pos ! 0, fst res, snd res, 4], elems = \<lambda>_. 0\<rparr>)"

definition demo_interpolate ::
  "rtensor \<Rightarrow> rtensor \<Rightarrow> itensor \<Rightarrow> rtensor \<Rightarrow> nat list option \<Rightarrow> error + rtensor \<times> rtensor" where
  "demo_interpolate attr rast tri rast_db diff_attrs =
     Inr (\<lparr>shape = butlast (shape rast) @ [last (shape attr)],
           elems = \<lambda>idx. elems attr [idx ! 0,
                      (shape rast ! 1 - 1 - idx ! 1) * (shape rast ! 2) + idx ! 2, idx ! 3]\<rparr>,
          \<lparr>shape = butlast (shape rast) @ [case diff_attrs of None \<Rightarrow> 0 | Some l \<Rightarrow> 2 * length l],
           elems = \<lambda>_. 0\<rparr>)"

definition demo_env :: "(nat list \<Rightarrow> real) \<Rightarrow> (nat list \<Rightarrow> real \<Rightarrow> real) \<Rightarrow> nat env" where
  "demo_env raw aa =
     \<lparr>RasterizeGLContext = \<lambda>_. Inr 0,
      RasterizeCudaContext = \<lambda>_. Inr 1,
      dr_rasterize = demo_rasterize raw,
      dr_interpolate = demo_interpolate,
      dr_antialias = \<lambda>im rast pos tri. Inr \<lparr>shape = shape im, elems = \<lambda>idx. aa idx (elems im idx)\<rparr>,
      matmul = \<lambda>x y. Inr x,
      extrinsics_to_view = Inr,
      intrinsics_to_perspective = \<lambda>k n f. Inr (eye 4),
      image_mesh = demo_image_mesh,
      unproject_cv = demo_unproject_cv,
      triangulate = \<lambda>f v b. Inr f,
      linearize_depth = \<lambda>d n f. Inr (tmap (\<lambda>x. n * f / (f - (f - n) * x)) d)\<rparr>"

text \<open>A tensor from nested lists.\<close>

definition tensor3 :: "'a \<Rightarrow> 'a list list list \<Rightarrow> 'a tensor" where
  "tensor3 dflt xs =
     \<lparr>shape = [length xs, length (hd xs), length (hd (hd xs))],
      elems = \<lambda>idx. if idx ! 0 < length xs \<and> idx ! 1 < length (xs ! (idx ! 0))
                        \<and> idx ! 2 < length (xs ! (idx ! 0) ! (idx ! 1))
                     then xs ! (idx ! 0) ! (idx ! 1) ! (idx ! 2) else dflt\<rparr>"

definition demo_args :: "rtensor \<Rightarrow> warp_args" where
  "demo_args d =
     \<lparr>arg_depth = d, arg_image = None, arg_mask = None, arg_width = None, arg_height = None,
      arg_extrinsics_src = None, arg_extrinsics_tgt = None,
      arg_intrinsics_src = Some (eye 3), arg_intrinsics_tgt = None,
      arg_near = 0.1, arg_far = 100, arg_antialiasing = True, arg_backslash = False,
      arg_padding = 0, arg_return_dr = False\<rparr>"

text \<open>Inputs of the worked examples: three vertices, one triangle, one attribute channel.\<close>

definition demo_vertices :: rtensor where
  "demo_vertices = \<lparr>shape = [1, 3, 4], elems = \<lambda>_. 1\<rparr>"

definition demo_faces :: itensor where
  "demo_faces = \<lparr>shape = [1, 3], elems = \<lambda>idx. int (idx ! 1)\<rparr>"

definition demo_attr :: rtensor where
  "demo_attr = \<lparr>shape = [1, 3, 1], elems = \<lambda>idx. real (idx ! 1)\<rparr>"

text \<open>A raster whose z channel is 1/2 in column 0, 0 in column 1 and -1/2 elsewhere.\<close>

definition demo_raw :: "nat list \<Rightarrow> real" where
  "demo_raw idx =
     (if idx ! 3 = 2 then (if idx ! 2 = 0 then 0.5 else if idx ! 2 = 1 then 0 else - 0.5) else 0)"

definition no_aa :: "nat list \<Rightarrow> real \<Rightarrow> real" where
  "no_aa idx x = x"

definition demo_ctx :: "nat RastContext" where
  "demo_ctx = \<lparr>nvd_ctx = 0\<rparr>"

section \<open>Notions used to state the properties of the rasterization functions\<close>

text \<open>
  The raw clip-space z that the rasterizer's output \<open>rast_out\<close> (indexed batch, row, column,
  channel; rows bottom-up) holds for the pixel \<open>idx\<close> = (batch, row, column) of the returned
  depth: channel 2 of the row mirrored by \<^verbatim>\<open>flip(1)\<close>.
\<close>

definition raw_z :: "rtensor \<Rightarrow> nat list \<Rightarrow> real" where
  "raw_z rast_out idx = elems rast_out (idx[1 := shape rast_out ! 1 - 1 - idx ! 1] @ [2])"

text \<open>The returned depth at \<open>idx\<close>, and the raw z of a rasterizer result at \<open>idx\<close>.\<close>

definition depth_at ::
  "nat list \<Rightarrow> ('c, rtensor \<times> rtensor \<times> rtensor option) traced \<Rightarrow> error + real" where
  "depth_at idx r = (case snd r of Inl e \<Rightarrow> Inl e | Inr (img, depth, dr) \<Rightarrow> Inr (elems depth idx))"

definition raster_z :: "nat list \<Rightarrow> error + rtensor \<times> rtensor \<Rightarrow> error + real" where
  "raster_z idx r = (case r of Inl e \<Rightarrow> Inl e | Inr (rast_out, rast_db) \<Rightarrow> Inr (raw_z rast_out idx))"

section \<open>Notions used to state the properties of \<^verbatim>\<open>warp_image_by_depth\<close>\<close>

text \<open>Every call a computation made satisfies \<open>P\<close>.\<close>

definition calls_are :: "('c call \<Rightarrow> bool) \<Rightarrow> ('c, 'a) traced \<Rightarrow> bool" where
  "calls_are P m = list_all P (fst m)"

fun is_triangulate :: "'c call \<Rightarrow> bool" where
  "is_triangulate (Call_triangulate f v b) = True"
| "is_triangulate _ = False"

text \<open>
  The triangulation mode of a call with arguments \<open>a\<close>: for a batch of one, \<^verbatim>\<open>vertices\<close> is the
  first batch element of points that the unprojection returned and \<^verbatim>\<open>backslash\<close> is not
  passed; otherwise only \<^verbatim>\<open>backslash\<close> is passed, with the caller's flag.
\<close>

definition mode_ok :: "'c env \<Rightarrow> warp_args \<Rightarrow> 'c call \<Rightarrow> bool" where
  "mode_ok env a c =
     (case c of
        Call_triangulate f v b \<Rightarrow>
          if shape (arg_depth a) ! 0 = 1
          then b = None \<and>
               (\<exists>uv d e k pts pts0. unproject_cv env uv d e k = Inr pts
                   \<and> select_first 0 pts = Inr pts0 \<and> v = Some pts0)
          else v = None \<and> b = Some (arg_backslash a)
      | _ \<Rightarrow> True)"

text \<open>
  Depths of a one-row image with two pixels, for a batch of one and a batch of two, and a mask
  that marks the second pixel invalid.
\<close>

definition demo_depth :: rtensor where
  "demo_depth = tensor3 0 [[[5, 7]]]"

definition demo_depth2 :: rtensor where
  "demo_depth2 = tensor3 0 [[[5, 7]], [[6, 8]]]"

definition demo_mask :: btensor where
  "demo_mask = tensor3 False [[[True, False]]]"

text \<open>A raster whose z channel is 1/2 everywhere.\<close>

definition half_raw :: "nat list \<Rightarrow> real" where
  "half_raw idx = (if idx ! 3 = 2 then 0.5 else 0)"

text \<open>The depth arguments of the unprojection calls of a trace.\<close>

fun unproject_depths :: "'c call list \<Rightarrow> rtensor list" where
  "unproject_depths [] = []"
| "unproject_depths (Call_unproject_cv uv d e k # cs) = d # unproject_depths cs"
| "unproject_depths (c # cs) = unproject_depths cs"

text \<open>
  The number of channels that \<^verbatim>\<open>warp_image_by_depth\<close> removes from the rasterized image: the
  mask channel when a mask is given (line 255), the two uv channels when derivatives are asked
  for and an image is given (line 259).
\<close>

definition helper_channels :: "warp_args \<Rightarrow> nat" where
  "helper_channels a =
     (if arg_mask a \<noteq> None then 1 else 0) + (if arg_return_dr a \<and> arg_image a \<noteq> None then 2 else 0)"

text \<open>
  An antialiasing that sets the last of three channels to 0.9999 in column 0 and to 0.99991 in
  the other columns, and an image of three channels with two pixels.
\<close>

definition edge_aa :: "nat list \<Rightarrow> real \<Rightarrow> real" where
  "edge_aa idx x = (if idx ! 3 = 2 then (if idx ! 2 = 0 then 0.9999 else 0.99991) else x)"

definition demo_image :: rtensor where
  "demo_image = \<lparr>shape = [1, 3, 1, 2], elems = \<lambda>idx. real (idx ! 1 * 10 + idx ! 3 + 1)\<rparr>"

text \<open>Two calls: one with a mask, one with an image, a mask and derivatives.\<close>

definition edge_args :: warp_args where
  "edge_args = (demo_args demo_depth)\<lparr>arg_mask := Some demo_mask\<rparr>"

definition strip_args :: warp_args where
  "strip_args = (demo_args demo_depth)\<lparr>arg_image := Some demo_image, arg_mask := Some demo_mask,
                   arg_return_dr := True\<rparr>"

section \<open>Properties of \<^verbatim>\<open>read_obj\<close>\<close>

subsection \<open>Splitting\<close>

lemma split_acc_Nil_iff: "split_acc cur line = [] \<longleftrightarrow> cur = [] \<and> (\<forall>c\<in>set line. is_space c)"
  by (induction cur line rule: split_acc.induct) auto

lemma split_Nil_iff: "split line = [] \<longleftrightarrow> (\<forall>c\<in>set line. is_space c)"
  by (simp add: split_def split_acc_Nil_iff)

lemma split_acc_nonempty: "t \<in> set (split_acc cur line) \<Longrightarrow> t \<noteq> []"
  by (induction cur line rule: split_acc.induct) (auto split: if_splits)

lemma split_tokens_nonempty: "t \<in> set (split line) \<Longrightarrow> t \<noteq> []"
  unfolding split_def by (rule split_acc_nonempty)

lemma split_on_plain: "sep \<notin> set a \<Longrightarrow> split_on sep a = [a]"
  by (induction a) auto

lemma split_on_append: "sep \<notin> set a \<Longrightarrow> split_on sep (a @ sep # r) = a # split_on sep r"
  by (induction a) auto

lemma split_on_length: "length (split_on sep e) = Suc (length (filter (\<lambda>c. c = sep) e))"
  by (induction e) (auto split: list.splits)

subsection \<open>Comprehensions and the loop\<close>

lemma traverse_length: "traverse g xs = Inr ys \<Longrightarrow> length ys = length xs"
  by (induction xs arbitrary: ys) (auto split: sum.splits)

lemma read_lines_append:
  "read_lines fo io ign st (xs @ ys) =
     (case read_lines fo io ign st xs of Inl e \<Rightarrow> Inl e | Inr st' \<Rightarrow> read_lines fo io ign st' ys)"
  by (induction xs arbitrary: st) (auto split: sum.splits)

lemma read_line_blank: "\<forall>c\<in>set line. is_space c \<Longrightarrow> read_line fo io ign st line = Inl IndexError"
  using split_Nil_iff[of line] by (simp add: read_line_def)

lemma read_lines_blank:
  assumes "\<forall>c\<in>set line. is_space c"
  shows "\<exists>e. read_lines fo io ign st (pre @ line # post) = Inl e"
  using read_line_blank[OF assms]
  by (auto simp: read_lines_append split: sum.splits)

lemma read_line_unknown:
  assumes "unknown_line line"
  shows "read_line fo io ign st line =
           (if ign then Inr st else Inl (UnknownKeyword (the (directive line))))"
proof -
  from assms obtain sq0 rest where sq: "split line = sq0 # rest"
    by (auto simp: unknown_line_def directive_def split: list.splits)
  from assms sq have nk: "sq0 \<notin> set known_directives" and nh: "take 1 sq0 \<noteq> ''#''"
    by (auto simp: unknown_line_def directive_def)
  have "sq0 \<in> set (split line)" using sq by simp
  then have "sq0 \<noteq> []" by (rule split_tokens_nonempty)
  then obtain c0 cs where c: "sq0 = c0 # cs" by (cases sq0) auto
  with nh have h: "c0 \<noteq> CHR ''#''" by auto
  from nk have nk': "sq0 \<noteq> ''v''" "sq0 \<noteq> ''vt''" "sq0 \<noteq> ''vn''" "sq0 \<noteq> ''vp''" "sq0 \<noteq> ''f''"
     "sq0 \<noteq> ''usemtl''" "sq0 \<noteq> ''o''" "sq0 \<noteq> ''s''" "sq0 \<noteq> ''mtllib''"
    by (auto simp: known_directives_def)
  have "read_line fo io ign st line =
          (case sq0 of [] \<Rightarrow> Inl IndexError
           | c0 # _ \<Rightarrow> if c0 = CHR ''#'' then Inr st
                       else if \<not> ign then Inl (UnknownKeyword sq0) else Inr st)"
    unfolding read_line_def Let_def sq list.case using nk' by (simp only: if_False)
  also have "\<dots> = (if ign then Inr st else Inl (UnknownKeyword sq0))"
    using h by (simp add: c)
  finally show ?thesis using sq by (simp add: directive_def)
qed

subsection \<open>Face corners\<close>

lemma corner_1: "plain a \<Longrightarrow> int_of a = Some i \<Longrightarrow> corner int_of a = Inr [i, 0, 0]"
  by (simp add: corner_def plain_def split_on_plain py_int_def pad0_def eval_nat_numeral)

lemma corner_2:
  "plain a \<Longrightarrow> plain b \<Longrightarrow> int_of a = Some i \<Longrightarrow> int_of b = Some j \<Longrightarrow>
   corner int_of (a @ CHR ''/'' # b) = Inr [i, j, 0]"
  by (simp add: corner_def plain_def split_on_plain split_on_append py_int_def pad0_def)

lemma corner_3:
  "plain a \<Longrightarrow> plain b \<Longrightarrow> plain c \<Longrightarrow> int_of a = Some i \<Longrightarrow> int_of b = Some j \<Longrightarrow>
   int_of c = Some k \<Longrightarrow> corner int_of (a @ CHR ''/'' # b @ CHR ''/'' # c) = Inr [i, j, k]"
  by (simp add: corner_def plain_def split_on_plain split_on_append py_int_def pad0_def)

lemma corner_length:
  assumes "corner int_of e = Inr l"
  shows "length l = max 3 (Suc (length (filter (\<lambda>c. c = CHR ''/'') e)))"
  using assms
  by (auto simp: corner_def pad0_def split_on_length split: sum.splits dest!: traverse_length)

subsection \<open>Order of the returned lists\<close>

lemma read_line_f:
  assumes "read_line fo io ign st line = Inr st'"
  shows "if directive line = Some ''f''
         then \<exists>face. parse_face io line = Inr face \<and> obj_f st' = obj_f st @ [face]
         else obj_f st' = obj_f st"
proof (cases "split line")
  case Nil
  with assms show ?thesis by (simp add: read_line_def)
next
  case (Cons sq0 rest)
  with assms show ?thesis
    by (auto simp: read_line_def Let_def directive_def parse_face_def asserting_def append_floats_def
             split: if_splits sum.splits list.splits)
qed

lemma read_line_v:
  assumes "read_line fo io ign st line = Inr st'"
  shows "if directive line = Some ''v''
         then \<exists>xs. parse_floats fo line = Inr xs \<and> obj_v st' = obj_v st @ [xs]
         else obj_v st' = obj_v st"
proof (cases "split line")
  case Nil
  with assms show ?thesis by (simp add: read_line_def)
next
  case (Cons sq0 rest)
  with assms show ?thesis
    by (auto simp: read_line_def Let_def directive_def parse_floats_def asserting_def append_floats_def
             split: if_splits sum.splits list.splits)
qed

lemma read_lines_f:
  "read_lines fo io ign st lines = Inr r \<Longrightarrow>
   \<exists>fs. traverse (parse_face io) (filter (\<lambda>l. directive l = Some ''f'') lines) = Inr fs
        \<and> obj_f r = obj_f st @ fs"
proof (induction lines arbitrary: st)
  case Nil
  then show ?case by simp
next
  case (Cons line lines)
  from Cons.prems obtain st' where 1: "read_line fo io ign st line = Inr st'"
    and 2: "read_lines fo io ign st' lines = Inr r"
    by (auto split: sum.splits)
  from Cons.IH[OF 2] obtain fs where
    fs: "traverse (parse_face io) (filter (\<lambda>l. directive l = Some ''f'') lines) = Inr fs"
        "obj_f r = obj_f st' @ fs"
    by auto
  show ?case using read_line_f[OF 1] fs by (auto split: if_splits)
qed

lemma read_lines_v:
  "read_lines fo io ign st lines = Inr r \<Longrightarrow>
   \<exists>vs. traverse (parse_floats fo) (filter (\<lambda>l. directive l = Some ''v'') lines) = Inr vs
        \<and> obj_v r = obj_v st @ vs"
proof (induction lines arbitrary: st)
  case Nil
  then show ?case by simp
next
  case (Cons line lines)
  from Cons.prems obtain st' where 1: "read_line fo io ign st line = Inr st'"
    and 2: "read_lines fo io ign st' lines = Inr r"
    by (auto split: sum.splits)
  from Cons.IH[OF 2] obtain vs where
    vs: "traverse (parse_floats fo) (filter (\<lambda>l. directive l = Some ''v'') lines) = Inr vs"
        "obj_v r = obj_v st' @ vs"
    by auto
  show ?case using read_line_v[OF 1] vs by (auto split: if_splits)
qed

lemmas parse_simps = read_obj_def read_line_def split_def is_space_def empty_obj_def asserting_def
  append_floats_def py_float_def py_int_def dec_float_def dec_int_def corner_def pad0_def Let_def
  eval_nat_numeral

subsection \<open>The claims about \<^verbatim>\<open>read_obj\<close>\<close>

text \<open>
  Claim C7.  A face corner written \<open>i\<close>, \<open>i/j\<close> or \<open>i/j/k\<close> becomes the list of exactly three
  integers \<open>[i, 0, 0]\<close>, \<open>[i, j, 0]\<close>, \<open>[i, j, k]\<close>: missing components are padded with 0 and
  the indices are kept as written (nothing is subtracted, so they stay 1-based).  Every corner
  with at most two slashes that parses has exactly three components.  When \<^verbatim>\<open>read_obj\<close>
  returns, its \<^verbatim>\<open>f\<close> list is the faces of the \<^verbatim>\<open>f\<close> lines in file order and its \<^verbatim>\<open>v\<close> list is
  the vertices of the \<^verbatim>\<open>v\<close> lines in file order.
\<close>

theorem read_obj_face_corners:
  "(plain a \<and> plain b \<and> plain c \<and> int_of a = Some i \<and> int_of b = Some j \<and> int_of c = Some k \<longrightarrow>
      corner int_of a = Inr [i, 0, 0]
    \<and> corner int_of (a @ ''/'' @ b) = Inr [i, j, 0]
    \<and> corner int_of (a @ ''/'' @ b @ ''/'' @ c) = Inr [i, j, k])
 \<and> (corner int_of e = Inr l \<and> length (filter (\<lambda>c. c = CHR ''/'') e) \<le> 2 \<longrightarrow> length l = 3)
 \<and> (read_obj float_of int_of ignore_unknown lines = Inr r \<longrightarrow>
      traverse (parse_face int_of) (filter (\<lambda>l. directive l = Some ''f'') lines) = Inr (obj_f r)
    \<and> traverse (parse_floats float_of) (filter (\<lambda>l. directive l = Some ''v'') lines) = Inr (obj_v r))"
proof (intro conjI impI)
  assume h: "read_obj float_of int_of ignore_unknown lines = Inr r"
  show "traverse (parse_face int_of) (filter (\<lambda>l. directive l = Some ''f'') lines) = Inr (obj_f r)"
    using read_lines_f[OF h[unfolded read_obj_def]] by (simp add: empty_obj_def)
  show "traverse (parse_floats float_of) (filter (\<lambda>l. directive l = Some ''v'') lines) = Inr (obj_v r)"
    using read_lines_v[OF h[unfolded read_obj_def]] by (simp add: empty_obj_def)
next
  assume "corner int_of e = Inr l \<and> length (filter (\<lambda>c. c = CHR ''/'') e) \<le> 2"
  then show "length l = 3" using corner_length[of int_of e l] by auto
qed (simp_all add: corner_1 corner_2 corner_3)

theorem read_obj_face_corners_witness:
  "plain ''7'' \<and> plain ''8'' \<and> plain ''9''
   \<and> corner dec_int ''7'' = Inr [7, 0, 0]
   \<and> corner dec_int ''7/8'' = Inr [7, 8, 0]
   \<and> corner dec_int ''7/8/9'' = Inr [7, 8, 9]
   \<and> read_obj dec_float dec_int False
        [''v 1 2 3\<newline>'', ''f 3/1 2 1/2/3\<newline>'', ''v 4 5 6\<newline>'', ''f 1 2 3\<newline>'']
       = Inr (empty_obj\<lparr>obj_v := [[1, 2, 3], [4, 5, 6]],
                obj_f := [[[3, 1, 0], [2, 0, 0], [1, 2, 3]], [[1, 0, 0], [2, 0, 0], [3, 0, 0]]]\<rparr>)
   \<and> traverse (parse_face dec_int) [''f 3/1 2 1/2/3\<newline>'', ''f 1 2 3\<newline>'']
       = Inr [[[3, 1, 0], [2, 0, 0], [1, 2, 3]], [[1, 0, 0], [2, 0, 0], [3, 0, 0]]]
   \<and> traverse (parse_floats dec_float) [''v 1 2 3\<newline>'', ''v 4 5 6\<newline>'']
       = Inr [[1, 2, 3], [4, 5, 6]]"
proof -
  let ?lines = "[''v 1 2 3\<newline>'', ''f 3/1 2 1/2/3\<newline>'', ''v 4 5 6\<newline>'', ''f 1 2 3\<newline>'']"
  let ?r = "empty_obj\<lparr>obj_v := [[1, 2, 3], [4, 5, 6]],
                obj_f := [[[3, 1, 0], [2, 0, 0], [1, 2, 3]], [[1, 0, 0], [2, 0, 0], [3, 0, 0]]]\<rparr>"
  have p: "plain ''7''" "plain ''8''" "plain ''9''" by (simp_all add: plain_def)
  have d: "dec_int ''7'' = Some 7" "dec_int ''8'' = Some 8" "dec_int ''9'' = Some 9"
    by (simp_all add: dec_int_def)
  have r: "read_obj dec_float dec_int False ?lines = Inr ?r"
    by (simp add: parse_simps)
  have fl: "filter (\<lambda>l. directive l = Some ''f'') ?lines = [''f 3/1 2 1/2/3\<newline>'', ''f 1 2 3\<newline>'']"
    by (simp add: directive_def split_def is_space_def)
  have vl: "filter (\<lambda>l. directive l = Some ''v'') ?lines = [''v 1 2 3\<newline>'', ''v 4 5 6\<newline>'']"
    by (simp add: directive_def split_def is_space_def)
  from read_obj_face_corners[of "''7''" "''8''" "''9''" dec_int 7 8 9 "''7''" "[7, 0, 0]"
      dec_float False ?lines ?r] p d r fl vl
  show ?thesis by (simp add: empty_obj_def)
qed

text \<open>
  Claim C8.  Let a line's first token be neither one of the directives \<^verbatim>\<open>v\<close>, \<^verbatim>\<open>vt\<close>, \<^verbatim>\<open>vn\<close>,
  \<^verbatim>\<open>vp\<close>, \<^verbatim>\<open>f\<close>, \<^verbatim>\<open>usemtl\<close>, \<^verbatim>\<open>o\<close>, \<^verbatim>\<open>s\<close>, \<^verbatim>\<open>mtllib\<close> nor start with \<^verbatim>\<open>#\<close>.  With
  \<^verbatim>\<open>ignore_unknown\<close> false the call raises: the unknown-keyword exception naming that token
  when the lines before it were read without error, and some exception in any case.  With
  \<^verbatim>\<open>ignore_unknown\<close> true the call returns what it returns for the file without that line.
\<close>

theorem read_obj_unknown_directive:
  assumes "unknown_line line"
  shows "(read_lines fo io False empty_obj pre = Inr st \<longrightarrow>
            read_obj fo io False (pre @ line # post) = Inl (UnknownKeyword (the (directive line))))
       \<and> (\<exists>e. read_obj fo io False (pre @ line # post) = Inl e)
       \<and> read_obj fo io True (pre @ line # post) = read_obj fo io True (pre @ post)"
  using read_line_unknown[OF assms]
  by (auto simp: read_obj_def read_lines_append split: sum.splits)

theorem read_obj_unknown_directive_witness:
  "unknown_line ''g grp\<newline>''
   \<and> read_obj dec_float dec_int False [''v 1 2 3\<newline>'', ''g grp\<newline>'', ''f 1 1 1\<newline>'']
       = Inl (UnknownKeyword ''g'')
   \<and> read_obj dec_float dec_int True [''v 1 2 3\<newline>'', ''g grp\<newline>'', ''f 1 1 1\<newline>'']
       = Inr (empty_obj\<lparr>obj_v := [[1, 2, 3]], obj_f := [[[1, 0, 0], [1, 0, 0], [1, 0, 0]]]\<rparr>)"
proof -
  have h1: "unknown_line ''g grp\<newline>''"
    by (simp add: unknown_line_def directive_def known_directives_def split_def is_space_def)
  have h2: "read_lines dec_float dec_int False empty_obj [''v 1 2 3\<newline>'']
       = Inr (empty_obj\<lparr>obj_v := [[1, 2, 3]]\<rparr>)"
    by (simp add: parse_simps)
  have h3: "read_obj dec_float dec_int True [''v 1 2 3\<newline>'', ''f 1 1 1\<newline>'']
       = Inr (empty_obj\<lparr>obj_v := [[1, 2, 3]], obj_f := [[[1, 0, 0], [1, 0, 0], [1, 0, 0]]]\<rparr>)"
    by (simp add: parse_simps split_on_plain)
  have h4: "the (directive ''g grp\<newline>'') = ''g''"
    by (simp add: directive_def split_def is_space_def)
  from read_obj_unknown_directive[OF h1, of dec_float dec_int "[''v 1 2 3\<newline>'']" _ "[''f 1 1 1\<newline>'']"]
    h1 h2 h3 h4
  show ?thesis by simp
qed

text \<open>
  Claim C10.  A line that is empty or holds only whitespace makes \<^verbatim>\<open>read_obj\<close> raise, whatever
  \<^verbatim>\<open>ignore_unknown\<close> is: the \<^verbatim>\<open>IndexError\<close> of \<^verbatim>\<open>sq[0]\<close> when the lines before it were read
  without error, and some exception in any case.  So when \<^verbatim>\<open>read_obj\<close> returns, every line of
  the file holds a character that is not whitespace.
\<close>

theorem read_obj_blank_line:
  "((\<forall>c\<in>set line. is_space c) \<longrightarrow>
       (read_lines fo io ign empty_obj pre = Inr st \<longrightarrow>
          read_obj fo io ign (pre @ line # post) = Inl IndexError)
     \<and> (\<exists>e. read_obj fo io ign (pre @ line # post) = Inl e))
 \<and> (read_obj fo io ign lines = Inr r \<longrightarrow> (\<forall>l\<in>set lines. \<exists>c\<in>set l. \<not> is_space c))"
proof (intro conjI impI ballI)
  assume b: "\<forall>c\<in>set line. is_space c"
  show "\<exists>e. read_obj fo io ign (pre @ line # post) = Inl e"
    unfolding read_obj_def by (rule read_lines_blank[OF b])
  assume "read_lines fo io ign empty_obj pre = Inr st"
  then show "read_obj fo io ign (pre @ line # post) = Inl IndexError"
    using read_line_blank[OF b] by (simp add: read_obj_def read_lines_append)
next
  fix l
  assume ok: "read_obj fo io ign lines = Inr r" and l: "l \<in> set lines"
  show "\<exists>c\<in>set l. \<not> is_space c"
  proof (rule ccontr)
    assume "\<not> ?thesis"
    then have b: "\<forall>c\<in>set l. is_space c" by simp
    from l obtain pre post where "lines = pre @ l # post"
      by (auto simp: in_set_conv_decomp)
    with read_lines_blank[OF b, of fo io ign empty_obj pre post] ok show False
      by (simp add: read_obj_def)
  qed
qed

theorem read_obj_blank_line_witness:
  "list_all is_space '' \<newline>''
   \<and> read_lines dec_float dec_int False empty_obj [''v 1 2 3\<newline>'']
       = Inr (empty_obj\<lparr>obj_v := [[1, 2, 3]]\<rparr>)
   \<and> read_obj dec_float dec_int False [''v 1 2 3\<newline>'', '' \<newline>'', ''v 4 5 6\<newline>''] = Inl IndexError
   \<and> read_obj dec_float dec_int False [''v 1 2 3\<newline>''] = Inr (empty_obj\<lparr>obj_v := [[1, 2, 3]]\<rparr>)
   \<and> list_all (list_ex (\<lambda>c. \<not> is_space c)) [''v 1 2 3\<newline>'']"
proof -
  have h1: "\<forall>c\<in>set '' \<newline>''. is_space c" by (simp add: is_space_def)
  have h2: "read_lines dec_float dec_int False empty_obj [''v 1 2 3\<newline>'']
       = Inr (empty_obj\<lparr>obj_v := [[1, 2, 3]]\<rparr>)"
    by (simp add: parse_simps)
  have h3: "read_obj dec_float dec_int False [''v 1 2 3\<newline>''] = Inr (empty_obj\<lparr>obj_v := [[1, 2, 3]]\<rparr>)"
    by (simp add: parse_simps)
  from read_obj_blank_line[of "'' \<newline>''" dec_float dec_int False "[''v 1 2 3\<newline>'']"
      "empty_obj\<lparr>obj_v := [[1, 2, 3]]\<rparr>" "[''v 4 5 6\<newline>'']" "[''v 1 2 3\<newline>'']"
      "empty_obj\<lparr>obj_v := [[1, 2, 3]]\<rparr>"] h1 h2 h3
  show ?thesis by (simp add: list_ex_iff)
qed

section \<open>Properties of the rasterization functions\<close>

subsection \<open>Computations and their traces\<close>

lemma t_bind_return: "t_bind (t_return x) k = k x"
  by (simp add: t_bind_def t_return_def split: prod.splits)

lemma t_bind_Inl: "t_bind (tr, Inl e) k = (tr, Inl e)"
  by (simp add: t_bind_def)

lemma t_bind_InrE:
  assumes "t_bind m k = (tr, Inr y)"
  obtains tr1 x tr2 where "m = (tr1, Inr x)" "k x = (tr2, Inr y)" "tr = tr1 @ tr2"
  using assms by (auto simp: t_bind_def split: prod.splits sum.splits)

lemma t_assert_InrE:
  assumes "t_assert c = (tr, Inr u)"
  obtains "c" "tr = []"
  using assms by (auto simp: t_assert_def t_return_def t_raise_def split: if_splits)

lemma t_torch_InrE:
  assumes "t_torch r = (tr, Inr y)"
  obtains "r = Inr y" "tr = []"
  using assms by (auto simp: t_torch_def)

lemma t_call_InrE:
  assumes "t_call c r = (tr, Inr y)"
  obtains "r = Inr y" "tr = [c]"
  using assms by (auto simp: t_call_def)

lemma t_return_InrE:
  assumes "t_return x = (tr, Inr y)"
  obtains "x = y" "tr = []"
  using assms by (auto simp: t_return_def)

lemmas traced_simps = t_bind_def t_return_def t_raise_def t_call_def t_torch_def t_assert_def

lemmas demo_simps = demo_env_def demo_rasterize_def demo_interpolate_def demo_image_mesh_def
  demo_unproject_cv_def demo_vertices_def demo_faces_def demo_attr_def demo_ctx_def no_aa_def

lemmas tensor_simps = ndim_def numel_def tmap_def eye_def flip1_def permute_def transpose_last_def
  select_last_def select_first_def first_of_last_def cat_last_def

subsection \<open>\<^verbatim>\<open>RastContext\<close>\<close>

text \<open>
  Claim C9.  Without a pre-built context, a backend name other than \<^verbatim>\<open>gl\<close> and \<^verbatim>\<open>cuda\<close> makes
  the constructor raise the unknown-backend \<^verbatim>\<open>ValueError\<close> without having called the
  rasterization library.  With a pre-built context the constructor stores it and returns,
  whatever the backend name is, again without a call.
\<close>

theorem RastContext_init_backend:
  "(backend \<noteq> ''gl'' \<and> backend \<noteq> ''cuda'' \<longrightarrow>
      RastContext_init env None backend device = ([], Inl (UnknownBackend backend)))
   \<and> RastContext_init env (Some c) backend device = ([], Inr \<lparr>nvd_ctx = c\<rparr>)"
  by (simp add: RastContext_init_def t_raise_def t_return_def)

theorem RastContext_init_backend_witness:
  "''vulkan'' \<noteq> ''gl'' \<and> ''vulkan'' \<noteq> ''cuda''
   \<and> RastContext_init (demo_env demo_raw no_aa) None ''vulkan'' None
       = ([], Inl (UnknownBackend ''vulkan''))
   \<and> RastContext_init (demo_env demo_raw no_aa) (Some 7) ''vulkan'' None
       = ([], Inr \<lparr>nvd_ctx = 7\<rparr>)"
  using RastContext_init_backend[of "''vulkan''" "demo_env demo_raw no_aa" None 7] by simp

subsection \<open>The depth returned by \<^verbatim>\<open>rasterize_vertex_attr\<close>\<close>

lemma depth_remap_cases:
  "(z < 0 \<longrightarrow> depth_remap z = 0) \<and> (z = 0 \<longrightarrow> depth_remap z = 1)
   \<and> (0 < z \<longrightarrow> depth_remap z = z * 0.5 + 0.5)
   \<and> (z \<le> 1 \<longrightarrow> 0 \<le> depth_remap z \<and> depth_remap z \<le> 1)"
  by (auto simp: depth_remap_def)

lemma rasterize_depth_remap:
  assumes "rasterize_vertex_attr env ctx vertices faces attr width height model view perspective
             antialiasing diff_attrs = (tr, Inr (img, depth, image_dr))"
  shows "\<exists>pos_clip rast_out rast_db.
           Call_rasterize (nvd_ctx ctx) pos_clip faces (height, width) \<in> set tr
         \<and> dr_rasterize env (nvd_ctx ctx) pos_clip faces (height, width) = Inr (rast_out, rast_db)
         \<and> shape depth = butlast (shape rast_out)
         \<and> (\<forall>idx. elems depth idx = depth_remap (raw_z rast_out idx))"
  using assms unfolding rasterize_vertex_attr_def
  apply (elim t_bind_InrE t_assert_InrE)
  apply (auto split: prod.splits option.splits
       elim!: t_bind_InrE t_call_InrE t_torch_InrE t_return_InrE
       simp: flip1_def select_last_def tmap_def raw_z_def Let_def nth_butlast ndim_def
       split: if_splits)
  apply blast+
  done

lemma demo_rasterize_run:
  "\<exists>tr img depth dr.
     rasterize_vertex_attr (demo_env demo_raw no_aa) demo_ctx demo_vertices demo_faces demo_attr 3 1
       None None None True None = (tr, Inr (img, depth, dr))"
  by (simp add: rasterize_vertex_attr_def homogeneous_def times_opt_def flip_permute_def
        traced_simps demo_simps tensor_simps upt_rec)

lemma demo_rasterize_raster:
  "dr_rasterize (demo_env demo_raw no_aa) (nvd_ctx demo_ctx) pos demo_faces (1, 3) = Inr (r, db)
   \<Longrightarrow> raw_z r [0, 0, 0] = 1 / 2 \<and> raw_z r [0, 0, 1] = 0 \<and> raw_z r [0, 0, 2] = - 1 / 2"
  by (auto simp: demo_simps raw_z_def demo_raw_def)

text \<open>
  Claim C1, as the code has it.  When \<^verbatim>\<open>rasterize_vertex_attr\<close> returns, the rasterizer was
  called and returned a raster \<open>rast_out\<close>, the depth has the raster's shape without the channel
  dimension, and at every pixel, with \<open>z\<close> the raw clip-space z of that pixel: the depth is 0
  when \<open>z\<close> is negative, 1 when \<open>z\<close> is exactly 0 (the sentinel of an empty pixel), and
  \<open>z * 0.5 + 0.5\<close> when \<open>z\<close> is positive; it lies in [0, 1] whenever \<open>z\<close> is at most 1.
\<close>

theorem rasterize_vertex_attr_depth:
  assumes "rasterize_vertex_attr env ctx vertices faces attr width height model view perspective
             antialiasing diff_attrs = (tr, Inr (img, depth, image_dr))"
  shows "\<exists>pos_clip rast_out rast_db.
           Call_rasterize (nvd_ctx ctx) pos_clip faces (height, width) \<in> set tr
         \<and> dr_rasterize env (nvd_ctx ctx) pos_clip faces (height, width) = Inr (rast_out, rast_db)
         \<and> shape depth = butlast (shape rast_out)
         \<and> (\<forall>idx. (raw_z rast_out idx < 0 \<longrightarrow> elems depth idx = 0)
                 \<and> (raw_z rast_out idx = 0 \<longrightarrow> elems depth idx = 1)
                 \<and> (0 < raw_z rast_out idx \<longrightarrow> elems depth idx = raw_z rast_out idx * 0.5 + 0.5)
                 \<and> (raw_z rast_out idx \<le> 1 \<longrightarrow>
                      0 \<le> elems depth idx \<and> elems depth idx \<le> 1))"
proof -
  from rasterize_depth_remap[OF assms] obtain pos_clip rast_out rast_db where
    c: "Call_rasterize (nvd_ctx ctx) pos_clip faces (height, width) \<in> set tr"
    and r: "dr_rasterize env (nvd_ctx ctx) pos_clip faces (height, width) = Inr (rast_out, rast_db)"
    and s: "shape depth = butlast (shape rast_out)"
    and e: "\<And>idx. elems depth idx = depth_remap (raw_z rast_out idx)"
    by blast
  show ?thesis
    using c r s depth_remap_cases e by metis
qed

theorem rasterize_vertex_attr_depth_witness:
  "depth_at [0, 0, 0] (rasterize_vertex_attr (demo_env demo_raw no_aa) demo_ctx demo_vertices
       demo_faces demo_attr 3 1 None None None True None) = Inr (3 / 4)
   \<and> depth_at [0, 0, 1] (rasterize_vertex_attr (demo_env demo_raw no_aa) demo_ctx demo_vertices
       demo_faces demo_attr 3 1 None None None True None) = Inr 1
   \<and> depth_at [0, 0, 2] (rasterize_vertex_attr (demo_env demo_raw no_aa) demo_ctx demo_vertices
       demo_faces demo_attr 3 1 None None None True None) = Inr 0"
proof -
  from demo_rasterize_run obtain tr img depth dr where
    run: "rasterize_vertex_attr (demo_env demo_raw no_aa) demo_ctx demo_vertices demo_faces
            demo_attr 3 1 None None None True None = (tr, Inr (img, depth, dr))"
    by blast
  from rasterize_vertex_attr_depth[OF run] obtain pos_clip rast_out rast_db where
    r: "dr_rasterize (demo_env demo_raw no_aa) (nvd_ctx demo_ctx) pos_clip demo_faces (1, 3)
          = Inr (rast_out, rast_db)"
    and e: "\<And>idx. (raw_z rast_out idx < 0 \<longrightarrow> elems depth idx = 0)
                 \<and> (raw_z rast_out idx = 0 \<longrightarrow> elems depth idx = 1)
                 \<and> (0 < raw_z rast_out idx \<longrightarrow> elems depth idx = raw_z rast_out idx * 0.5 + 0.5)"
    by blast
  from demo_rasterize_raster[OF r] e[of "[0, 0, 0]"] e[of "[0, 0, 1]"] e[of "[0, 0, 2]"]
  have "elems depth [0, 0, 0] = 3 / 4" "elems depth [0, 0, 1] = 1" "elems depth [0, 0, 2] = 0"
    by auto
  then show ?thesis unfolding depth_at_def run by simp
qed

text \<open>
  The claim as stated also asks for depth 0 at every pixel whose raw z is not positive.  At a
  pixel whose raw z is exactly 0 the returned depth is 1.
\<close>

theorem rasterize_vertex_attr_depth_zero_counterexample:
  "raster_z [0, 0, 1]
     (dr_rasterize (demo_env demo_raw no_aa) (nvd_ctx demo_ctx) demo_vertices demo_faces (1, 3)) = Inr 0
   \<and> depth_at [0, 0, 1] (rasterize_vertex_attr (demo_env demo_raw no_aa) demo_ctx demo_vertices
       demo_faces demo_attr 3 1 None None None True None) = Inr 1
   \<and> depth_at [0, 0, 1] (rasterize_vertex_attr (demo_env demo_raw no_aa) demo_ctx demo_vertices
       demo_faces demo_attr 3 1 None None None True None) \<noteq> Inr 0"
  by (simp add: raster_z_def depth_at_def raw_z_def demo_raw_def depth_remap_def
        rasterize_vertex_attr_def homogeneous_def times_opt_def flip_permute_def
        traced_simps demo_simps tensor_simps upt_rec)

subsection \<open>The camera parameters of \<^verbatim>\<open>warp_image_by_depth\<close>\<close>

lemma warp_cameras_src_default:
  "warp_cameras (a\<lparr>arg_intrinsics_src := None, arg_intrinsics_tgt := Some k\<rparr>)
     = (warp_cameras (a\<lparr>arg_intrinsics_src := Some k, arg_intrinsics_tgt := Some k\<rparr>) :: ('c, _) traced)"
  by (simp add: warp_cameras_def)

lemma warp_cameras_tgt_default:
  "warp_cameras (a\<lparr>arg_intrinsics_src := Some k, arg_intrinsics_tgt := None\<rparr>)
     = (warp_cameras (a\<lparr>arg_intrinsics_src := Some k, arg_intrinsics_tgt := Some k\<rparr>) :: ('c, _) traced)"
  by (simp add: warp_cameras_def)

lemma warp_cameras_none:
  "arg_intrinsics_src a = None \<Longrightarrow> arg_intrinsics_tgt a = None \<Longrightarrow>
   warp_cameras a = ([], Inl AssertionError)"
  by (simp add: warp_cameras_def t_raise_def)

lemma warp_stages_intrinsics:
  "warp_mesh env (a\<lparr>arg_intrinsics_src := x, arg_intrinsics_tgt := y\<rparr>) = warp_mesh env a"
  "warp_triangulate env (a\<lparr>arg_intrinsics_src := x, arg_intrinsics_tgt := y\<rparr>) = warp_triangulate env a"
  "warp_attr (a\<lparr>arg_intrinsics_src := x, arg_intrinsics_tgt := y\<rparr>) = warp_attr a"
  "warp_composite env (a\<lparr>arg_intrinsics_src := x, arg_intrinsics_tgt := y\<rparr>) = warp_composite env a"
  "out_height (a\<lparr>arg_intrinsics_src := x, arg_intrinsics_tgt := y\<rparr>) = out_height a"
  "out_width (a\<lparr>arg_intrinsics_src := x, arg_intrinsics_tgt := y\<rparr>) = out_width a"
  by (simp_all add: warp_mesh_def warp_triangulate_def warp_attr_def warp_composite_def
        warp_mask_def out_height_def out_width_def fun_eq_iff
        cong: option.case_cong if_cong)

text \<open>
  Claim C6.  A call with only the target intrinsics is the call with that matrix on both sides,
  and so is a call with only the source intrinsics.  With neither, the call raises (the
  assertion) and has called no collaborator: no lattice, unprojection, triangulation or
  rasterization.
\<close>

theorem warp_intrinsics_default:
  "warp_image_by_depth env ctx (a\<lparr>arg_intrinsics_src := None, arg_intrinsics_tgt := Some k\<rparr>)
     = warp_image_by_depth env ctx (a\<lparr>arg_intrinsics_src := Some k, arg_intrinsics_tgt := Some k\<rparr>)
   \<and> warp_image_by_depth env ctx (a\<lparr>arg_intrinsics_src := Some k, arg_intrinsics_tgt := None\<rparr>)
     = warp_image_by_depth env ctx (a\<lparr>arg_intrinsics_src := Some k, arg_intrinsics_tgt := Some k\<rparr>)
   \<and> (arg_intrinsics_src a = None \<and> arg_intrinsics_tgt a = None \<longrightarrow>
        warp_image_by_depth env ctx a = ([], Inl AssertionError))"
proof (intro conjI impI)
  show "warp_image_by_depth env ctx (a\<lparr>arg_intrinsics_src := None, arg_intrinsics_tgt := Some k\<rparr>)
     = warp_image_by_depth env ctx (a\<lparr>arg_intrinsics_src := Some k, arg_intrinsics_tgt := Some k\<rparr>)"
    unfolding warp_image_by_depth_def warp_rasterize_def warp_stages_intrinsics
    by (simp add: warp_cameras_src_default cong: option.case_cong)
  show "warp_image_by_depth env ctx (a\<lparr>arg_intrinsics_src := Some k, arg_intrinsics_tgt := None\<rparr>)
     = warp_image_by_depth env ctx (a\<lparr>arg_intrinsics_src := Some k, arg_intrinsics_tgt := Some k\<rparr>)"
    unfolding warp_image_by_depth_def warp_rasterize_def warp_stages_intrinsics
    by (simp add: warp_cameras_tgt_default cong: option.case_cong)
next
  assume n: "arg_intrinsics_src a = None \<and> arg_intrinsics_tgt a = None"
  have c: "t_bind (warp_cameras a) k = ([], Inl AssertionError)" for k :: "_ \<Rightarrow> ('a, 'b) traced"
    using n by (simp add: warp_cameras_none t_bind_def)
  have "warp_rasterize env ctx a = ([], Inl AssertionError)"
    by (simp add: warp_rasterize_def c t_assert_def t_bind_return t_bind_Inl t_raise_def Let_def)
  then show "warp_image_by_depth env ctx a = ([], Inl AssertionError)"
    by (simp add: warp_image_by_depth_def t_bind_def)
qed

theorem warp_intrinsics_default_witness:
  "arg_intrinsics_src ((demo_args demo_depth)\<lparr>arg_intrinsics_src := None\<rparr>) = None
   \<and> arg_intrinsics_tgt ((demo_args demo_depth)\<lparr>arg_intrinsics_src := None\<rparr>) = None
   \<and> warp_image_by_depth (demo_env demo_raw no_aa) demo_ctx
        ((demo_args demo_depth)\<lparr>arg_intrinsics_src := None\<rparr>) = ([], Inl AssertionError)"
  using warp_intrinsics_default[where env = "demo_env demo_raw no_aa" and ctx = demo_ctx
      and a = "(demo_args demo_depth)\<lparr>arg_intrinsics_src := None\<rparr>"]
  by (simp add: demo_args_def)

subsection \<open>The calls of \<^verbatim>\<open>warp_image_by_depth\<close>\<close>

lemma calls_are_return: "calls_are P (t_return x)"
  and calls_are_raise: "calls_are P (t_raise e)"
  and calls_are_torch: "calls_are P (t_torch r)"
  and calls_are_assert: "calls_are P (t_assert c)"
  by (simp_all add: calls_are_def traced_simps)

lemma calls_are_call: "P c \<Longrightarrow> calls_are P (t_call c r)"
  by (simp add: calls_are_def t_call_def)

lemma calls_are_bind:
  assumes "calls_are P m" and "\<And>tr x. m = (tr, Inr x) \<Longrightarrow> calls_are P (k x)"
  shows "calls_are P (t_bind m k)"
proof (cases m)
  case (Pair tr r)
  show ?thesis
  proof (cases r)
    case (Inl e)
    with Pair assms(1) show ?thesis by (simp add: calls_are_def t_bind_def)
  next
    case (Inr x)
    with Pair assms(1) assms(2)[of tr x] show ?thesis
      by (auto simp: calls_are_def t_bind_def split: prod.splits)
  qed
qed

lemma calls_are_mono: "calls_are P m \<Longrightarrow> (\<And>c. P c \<Longrightarrow> Q c) \<Longrightarrow> calls_are Q m"
  by (auto simp: calls_are_def list_all_iff)

lemma calls_are_if: "(c \<Longrightarrow> calls_are P x) \<Longrightarrow> (\<not> c \<Longrightarrow> calls_are P y) \<Longrightarrow> calls_are P (if c then x else y)"
  by simp

lemma calls_are_option:
  "(v = None \<Longrightarrow> calls_are P x) \<Longrightarrow> (\<And>y. v = Some y \<Longrightarrow> calls_are P (g y)) \<Longrightarrow>
   calls_are P (case v of None \<Rightarrow> x | Some y \<Rightarrow> g y)"
  by (cases v) simp_all

lemma calls_are_prod: "(\<And>x y. p = (x, y) \<Longrightarrow> calls_are P (g x y)) \<Longrightarrow> calls_are P (case p of (x, y) \<Rightarrow> g x y)"
  by (cases p) simp

lemma calls_are_Let: "calls_are P (g x) \<Longrightarrow> calls_are P (Let x g)"
  by simp

lemmas calls_intros = calls_are_bind calls_are_return calls_are_raise calls_are_torch
  calls_are_assert calls_are_call calls_are_if calls_are_option calls_are_prod calls_are_Let

lemma calls_rasterize_vertex_attr:
  "calls_are (\<lambda>c. \<not> is_triangulate c)
     (rasterize_vertex_attr env ctx vertices faces attr width height model view perspective
        antialiasing diff_attrs)"
  unfolding rasterize_vertex_attr_def homogeneous_def times_opt_def flip_permute_def
  by (intro calls_intros; simp)

lemma calls_warp_composite:
  "calls_are (\<lambda>c. \<not> is_triangulate c) (warp_composite env a height width rast)"
  unfolding warp_composite_def warp_mask_def unpack_rast_def
  by (intro calls_intros; simp)

lemma calls_warp_attr: "calls_are (\<lambda>c. \<not> is_triangulate c) (warp_attr a batch_size uv img)"
  unfolding warp_attr_def mask_attr_def
  by (intro calls_intros; simp)

lemma calls_warp_cameras: "calls_are (\<lambda>c. \<not> is_triangulate c) (warp_cameras a)"
  unfolding warp_cameras_def
  by (auto simp: Let_def intro!: calls_intros split: option.splits)

lemma calls_warp_mesh:
  "calls_are (\<lambda>c. \<not> is_triangulate c) (warp_mesh env a width height es ks)"
  unfolding warp_mesh_def padded_uv_def pad_opt_def py_div_def
  by (intro calls_intros; simp)

lemma warp_mesh_pts:
  assumes "warp_mesh env a width height es ks = (tr, Inr (uv, faces, img, pts))"
  shows "\<exists>uv' d. unproject_cv env uv' d es ks = Inr pts \<and> Call_unproject_cv uv' d es ks \<in> set tr"
  using assms unfolding warp_mesh_def
  apply (auto split: if_splits prod.splits elim!: t_bind_InrE t_call_InrE t_return_InrE)
   apply blast+
  done

lemma calls_warp_triangulate:
  assumes "unproject_cv env uv d e k = Inr pts"
  shows "calls_are (mode_ok env a) (warp_triangulate env a (shape (arg_depth a) ! 0) faces pts)"
  unfolding warp_triangulate_def
  apply (intro calls_intros)
  using assms apply (auto simp: mode_ok_def elim!: t_torch_InrE)
  apply blast
  done

lemma not_tri_mode_ok: "\<not> is_triangulate c \<Longrightarrow> mode_ok env a c"
  by (cases c) (simp_all add: mode_ok_def)

lemma calls_warp_rasterize: "calls_are (mode_ok env a) (warp_rasterize env ctx a)"
  unfolding warp_rasterize_def
  apply (intro calls_intros)
  apply (simp_all add: mode_ok_def)
  subgoal by (rule calls_are_mono[OF calls_warp_cameras not_tri_mode_ok])
  subgoal by (rule calls_are_mono[OF calls_warp_mesh not_tri_mode_ok])
  subgoal by (auto dest!: warp_mesh_pts intro: calls_warp_triangulate)
  subgoal by (rule calls_are_mono[OF calls_warp_attr not_tri_mode_ok])
  subgoal by (rule calls_are_mono[OF calls_rasterize_vertex_attr not_tri_mode_ok])
  done

lemma calls_warp_image_by_depth: "calls_are (mode_ok env a) (warp_image_by_depth env ctx a)"
  unfolding warp_image_by_depth_def
  by (intro calls_are_bind calls_warp_rasterize calls_are_mono[OF calls_warp_composite not_tri_mode_ok])

lemma warp_triangulate_called:
  assumes "warp_triangulate env a n faces pts = (tr, Inr faces')"
  shows "\<exists>f v b. Call_triangulate f v b \<in> set tr"
  using assms unfolding warp_triangulate_def
  by (auto split: if_splits elim!: t_bind_InrE t_call_InrE t_torch_InrE)

lemma warp_rasterize_triangulates:
  assumes "warp_rasterize env ctx a = (tr, Inr rast)"
  shows "\<exists>f v b. Call_triangulate f v b \<in> set tr"
  using assms unfolding warp_rasterize_def
  apply (elim t_bind_InrE t_assert_InrE)
  apply (auto simp: Let_def split: prod.splits elim!: t_bind_InrE dest!: warp_triangulate_called)
  apply blast
  done

text \<open>
  Claim C5.  The triangulation mode depends on the batch size \<^verbatim>\<open>depth.shape[0]\<close> alone.  Every
  triangulation call of a run passes, for a batch of one, \<^verbatim>\<open>vertices\<close> (the first batch element
  of points returned by the unprojection) and no \<^verbatim>\<open>backslash\<close>; for every other batch size it
  passes only \<^verbatim>\<open>backslash\<close>, with the caller's flag, and no vertices.  A run that returns has
  made such a call.
\<close>

theorem warp_triangulation_mode:
  assumes "warp_image_by_depth env ctx a = (tr, r)"
  shows "(\<forall>f v b. Call_triangulate f v b \<in> set tr \<longrightarrow>
           (if shape (arg_depth a) ! 0 = 1
            then b = None \<and>
                 (\<exists>uv d e k pts pts0. unproject_cv env uv d e k = Inr pts
                     \<and> select_first 0 pts = Inr pts0 \<and> v = Some pts0)
            else v = None \<and> b = Some (arg_backslash a)))
       \<and> (\<forall>res. r = Inr res \<longrightarrow> (\<exists>f v b. Call_triangulate f v b \<in> set tr))"
proof (intro conjI allI impI)
  fix f v b assume "Call_triangulate f v b \<in> set tr"
  with calls_warp_image_by_depth[of env a ctx] assms
  have "mode_ok env a (Call_triangulate f v b)"
    by (simp add: calls_are_def list_all_iff)
  then show "if shape (arg_depth a) ! 0 = 1
            then b = None \<and>
                 (\<exists>uv d e k pts pts0. unproject_cv env uv d e k = Inr pts
                     \<and> select_first 0 pts = Inr pts0 \<and> v = Some pts0)
            else v = None \<and> b = Some (arg_backslash a)"
    by (simp add: mode_ok_def)
next
  fix res assume "r = Inr res"
  with assms have "warp_image_by_depth env ctx a = (tr, Inr res)" by simp
  then obtain tr1 rast tr2 where "warp_rasterize env ctx a = (tr1, Inr rast)" "tr = tr1 @ tr2"
    unfolding warp_image_by_depth_def by (elim t_bind_InrE)
  with warp_rasterize_triangulates[of env ctx a tr1 rast]
  show "\<exists>f v b. Call_triangulate f v b \<in> set tr" by auto
qed

lemmas warp_defs = warp_image_by_depth_def warp_rasterize_def warp_cameras_def warp_mesh_def
  warp_triangulate_def warp_attr_def mask_attr_def warp_composite_def warp_mask_def unpack_rast_def
  out_height_def out_width_def last2_def padded_uv_def pad_opt_def py_div_def
  rasterize_vertex_attr_def homogeneous_def times_opt_def flip_permute_def

lemmas more_tensor_simps = scalar_def bshape_def bidx_def broadcast2_def inplace2_def reshape_def
  reshape_infer_def flatten_def drop_channels_def last_channel_def unsqueeze_def expand3_def
  pad_replicate_def update_where_def tensor3_def

lemma demo_warp_run1:
  "\<exists>tr res. warp_image_by_depth (demo_env half_raw no_aa) demo_ctx (demo_args demo_depth) = (tr, Inr res)"
  by (simp add: warp_defs traced_simps demo_simps tensor_simps more_tensor_simps demo_args_def
        demo_depth_def upt_rec Let_def)

lemma demo_warp_run2:
  "\<exists>tr res. warp_image_by_depth (demo_env half_raw no_aa) demo_ctx
      ((demo_args demo_depth2)\<lparr>arg_backslash := True\<rparr>) = (tr, Inr res)"
  by (simp add: warp_defs traced_simps demo_simps tensor_simps more_tensor_simps demo_args_def
        demo_depth2_def upt_rec Let_def)

theorem warp_triangulation_mode_witness:
  "(\<exists>tr res f pts0.
       warp_image_by_depth (demo_env half_raw no_aa) demo_ctx (demo_args demo_depth) = (tr, Inr res)
     \<and> shape demo_depth ! 0 = 1
     \<and> Call_triangulate f (Some pts0) None \<in> set tr)
   \<and> (\<exists>tr res f.
       warp_image_by_depth (demo_env half_raw no_aa) demo_ctx
         ((demo_args demo_depth2)\<lparr>arg_backslash := True\<rparr>) = (tr, Inr res)
     \<and> shape demo_depth2 ! 0 = 2
     \<and> Call_triangulate f None (Some True) \<in> set tr)"
proof (intro conjI)
  from demo_warp_run1 obtain tr res where
    run: "warp_image_by_depth (demo_env half_raw no_aa) demo_ctx (demo_args demo_depth) = (tr, Inr res)"
    by blast
  have b: "shape (arg_depth (demo_args demo_depth)) ! 0 = 1"
    by (simp add: demo_args_def demo_depth_def tensor3_def)
  from warp_triangulation_mode[OF run] obtain f v b' where
    c: "Call_triangulate f v b' \<in> set tr" by blast
  with warp_triangulation_mode[OF run]
  have "if shape (arg_depth (demo_args demo_depth)) ! 0 = 1
        then b' = None \<and>
             (\<exists>uv d e k pts pts0. unproject_cv (demo_env half_raw no_aa) uv d e k = Inr pts
                 \<and> select_first 0 pts = Inr pts0 \<and> v = Some pts0)
        else v = None \<and> b' = Some (arg_backslash (demo_args demo_depth))"
    by blast
  with b have "b' = None \<and> (\<exists>pts0. v = Some pts0)"
    by auto
  with c obtain pts0 where "Call_triangulate f (Some pts0) None \<in> set tr"
    by blast
  with run b show "\<exists>tr res f pts0.
       warp_image_by_depth (demo_env half_raw no_aa) demo_ctx (demo_args demo_depth) = (tr, Inr res)
     \<and> shape demo_depth ! 0 = 1
     \<and> Call_triangulate f (Some pts0) None \<in> set tr"
    by (auto simp: demo_args_def)
next
  let ?a = "(demo_args demo_depth2)\<lparr>arg_backslash := True\<rparr>"
  from demo_warp_run2 obtain tr res where
    run: "warp_image_by_depth (demo_env half_raw no_aa) demo_ctx ?a = (tr, Inr res)"
    by blast
  have b: "shape (arg_depth ?a) ! 0 = 2" "arg_backslash ?a = True"
    by (simp_all add: demo_args_def demo_depth2_def tensor3_def)
  from warp_triangulation_mode[OF run] obtain f v b' where
    c: "Call_triangulate f v b' \<in> set tr" by blast
  with warp_triangulation_mode[OF run]
  have "if shape (arg_depth ?a) ! 0 = 1
        then b' = None \<and>
             (\<exists>uv d e k pts pts0. unproject_cv (demo_env half_raw no_aa) uv d e k = Inr pts
                 \<and> select_first 0 pts = Inr pts0 \<and> v = Some pts0)
        else v = None \<and> b' = Some (arg_backslash ?a)"
    by blast
  with b have "v = None \<and> b' = Some True"
    by simp
  with c have "Call_triangulate f None (Some True) \<in> set tr"
    by blast
  with run b show "\<exists>tr res f.
       warp_image_by_depth (demo_env half_raw no_aa) demo_ctx ?a = (tr, Inr res)
     \<and> shape demo_depth2 ! 0 = 2
     \<and> Call_triangulate f None (Some True) \<in> set tr"
    by (auto simp: demo_args_def)
qed

text \<open>
  Claim C2 at a concrete call: a one-row image with depths 5 and 7 whose second pixel the mask
  marks invalid, far plane 100.  Without padding the unprojection receives the depths 5 and 100.
  With \<^verbatim>\<open>padding = 1\<close> it receives the replicated depths 5 and 7 only: the invalid pixel keeps
  its depth 7.  That call then raises, when the unpadded mask is concatenated to the attributes
  of the padded lattice.
\<close>

theorem warp_padding_keeps_masked_depth:
  "map (\<lambda>d. (shape d, map (\<lambda>k. elems d [0, k]) [0..<2]))
     (unproject_depths (fst (warp_image_by_depth (demo_env half_raw no_aa) demo_ctx
        ((demo_args demo_depth)\<lparr>arg_mask := Some demo_mask\<rparr>))))
     = [([1, 2], [5, 100])]
   \<and> map (\<lambda>d. (shape d, map (\<lambda>k. elems d [0, k]) [0..<12]))
     (unproject_depths (fst (warp_image_by_depth (demo_env half_raw no_aa) demo_ctx
        ((demo_args demo_depth)\<lparr>arg_mask := Some demo_mask, arg_padding := 1\<rparr>))))
     = [([1, 12], [5, 5, 7, 7, 5, 5, 7, 7, 5, 5, 7, 7])]
   \<and> snd (warp_image_by_depth (demo_env half_raw no_aa) demo_ctx
        ((demo_args demo_depth)\<lparr>arg_mask := Some demo_mask, arg_padding := 1\<rparr>)) = Inl TorchError"
  by (simp add: warp_defs traced_simps demo_simps tensor_simps more_tensor_simps demo_args_def
        demo_depth_def demo_mask_def upt_rec Let_def)

subsection \<open>Indices under broadcasting and reshaping\<close>

lemma bshape_rev_same: "bshape_rev xs xs = Some xs"
  by (induction xs) auto

lemma bshape_same: "bshape s s = Some s"
  by (simp add: bshape_def bshape_rev_same)

lemma bidx_in_range: "in_range s idx \<Longrightarrow> bidx s idx = idx"
  unfolding in_range_def bidx_def
  by (induction idx s rule: list_all2_induct) (auto simp: list_all2_lengthD)

lemma ravel_lt: "in_range s idx \<Longrightarrow> ravel s idx < prod_list s"
  unfolding in_range_def
proof (induction idx s rule: list_all2_induct)
  case Nil
  then show ?case by simp
next
  case (Cons i js d ds)
  have "i * prod_list ds + ravel ds js < i * prod_list ds + prod_list ds"
    using Cons.IH by simp
  also have "\<dots> = Suc i * prod_list ds" by simp
  also have "\<dots> \<le> d * prod_list ds"
    using Cons.hyps(1) by (intro mult_le_mono1) simp
  finally show ?case by simp
qed

lemma unravel_ravel: "in_range s idx \<Longrightarrow> unravel s (ravel s idx) = idx"
proof (induction s arbitrary: idx)
  case Nil
  then show ?case by (simp add: in_range_def)
next
  case (Cons d ds)
  from Cons.prems obtain i js where idx: "idx = i # js" and r: "in_range ds js"
    by (auto simp: in_range_def list_all2_Cons2)
  from ravel_lt[OF r] have lt: "ravel ds js < prod_list ds" .
  then show ?case using Cons.IH[OF r] by (simp add: idx)
qed

lemma ravel_first_dim: "ravel (x # ds) idx = ravel (y # ds) idx"
  by (cases idx) simp_all

lemma in_range3: "in_range [B, H, W] [b, i, j] \<longleftrightarrow> b < B \<and> i < H \<and> j < W"
  by (simp add: in_range_def)

lemma in_range4: "in_range [B, C, H, W] [b, c, i, j] \<longleftrightarrow> b < B \<and> c < C \<and> i < H \<and> j < W"
  by (simp add: in_range_def)

subsection \<open>The output mask\<close>

lemma warp_mask_none:
  assumes "warp_mask a H W rimg sdepth = (tr, Inr (colour, omask))" and "arg_mask a = None"
  shows "tr = [] \<and> colour = rimg \<and> omask = tmap (\<lambda>d. d < 1) sdepth"
  using assms by (simp add: warp_mask_def Let_def t_return_def)

lemma drop_channels4:
  assumes "drop_channels n t = Inr r" "shape t = [B, C, H, W]"
  shows "shape r = [B, C - n, H, W]" "elems r = elems t"
  using assms by (auto simp: drop_channels_def ndim_def split: if_splits)

lemma last_channel4:
  assumes "last_channel t = Inr r" "shape t = [B, C, H, W]"
  shows "0 < C" "shape r = [B, H, W]" "elems r idx = elems t (take 1 idx @ [C - 1] @ drop 1 idx)"
  using assms by (auto simp: last_channel_def ndim_def Let_def split: if_splits)

lemma reshape_infer3:
  assumes "reshape_infer [H, W] t = Inr r" "shape t = [B, H, W]"
  shows "shape r = [B, H, W]" "in_range [B, H, W] idx \<Longrightarrow> elems r idx = elems t idx"
proof -
  from assms have hw: "H * W \<noteq> 0"
    by (simp add: reshape_infer_def Let_def split: if_splits)
  have n: "numel t = B * (H * W)" using assms(2) by (simp add: numel_def)
  then have d: "numel t div (H * W) = B" using hw by simp
  from assms(1) hw have r: "reshape [B, H, W] t = Inr r"
    by (simp add: reshape_infer_def Let_def d split: if_splits)
  then have req: "r = \<lparr>shape = [B, H, W], elems = \<lambda>idx. elems t (unravel (shape t) (ravel [B, H, W] idx))\<rparr>"
    by (simp add: reshape_def split: if_splits)
  show "shape r = [B, H, W]" by (simp add: req)
  assume "in_range [B, H, W] idx"
  then show "elems r idx = elems t idx"
    by (simp add: req assms(2) unravel_ravel del: unravel.simps ravel.simps)
qed

lemma inplace_and3:
  assumes "inplace2 (\<lambda>x y. x \<and> y) p q = Inr r" "shape p = s" "shape q = s"
  shows "shape r = s" "in_range s idx \<Longrightarrow> elems r idx = (elems p idx \<and> elems q idx)"
proof -
  from assms have req: "r = \<lparr>shape = s, elems = \<lambda>idx. elems p (bidx s idx) \<and> elems q (bidx s idx)\<rparr>"
    by (simp add: inplace2_def broadcast2_def bshape_same split: if_splits)
  show "shape r = s" by (simp add: req)
  assume "in_range s idx"
  then show "elems r idx = (elems p idx \<and> elems q idx)"
    by (simp add: req bidx_in_range)
qed

lemma warp_mask_some:
  assumes run: "warp_mask a H W rimg sdepth = (tr, Inr (colour, omask))"
    and m: "arg_mask a = Some m"
    and s1: "shape rimg = [B, C, H, W]" and s2: "shape sdepth = [B, H, W]"
  shows "tr = []" "0 < C"
    and "shape colour = [B, C - 1, H, W]" "elems colour = elems rimg"
    and "shape omask = [B, H, W]"
    and "b < B \<Longrightarrow> i < H \<Longrightarrow> j < W \<Longrightarrow>
         elems omask [b, i, j] = (elems sdepth [b, i, j] < 1 \<and> 0.9999 < elems rimg [b, C - 1, i, j])"
proof -
  let ?om0 = "tmap (\<lambda>d. d < 1) sdepth"
  define thr :: real where "thr = 0.9999"
  from run m obtain rast_mask valid where
    c: "drop_channels 1 rimg = Inr colour"
    and rm: "last_channel rimg = Inr rast_mask"
    and v: "reshape_infer [H, W] (tmap (\<lambda>m. m > thr) rast_mask) = Inr valid"
    and om: "inplace2 (\<lambda>x y. x \<and> y) ?om0 valid = Inr omask"
    and tr: "tr = []"
    unfolding warp_mask_def Let_def thr_def[symmetric]
    by (auto elim!: t_bind_InrE t_torch_InrE t_return_InrE)
  show "tr = []" by (rule tr)
  show "0 < C" by (rule last_channel4(1)[OF rm s1])
  show "shape colour = [B, C - 1, H, W]" "elems colour = elems rimg"
    using drop_channels4[OF c s1] by simp_all
  note rms = last_channel4(2)[OF rm s1]
  have ts: "shape (tmap (\<lambda>m. m > thr) rast_mask) = [B, H, W]" by (simp add: tmap_def rms)
  note vs = reshape_infer3(1)[OF v ts]
  have oms0: "shape ?om0 = [B, H, W]" by (simp add: tmap_def s2)
  show "shape omask = [B, H, W]" by (rule inplace_and3(1)[OF om oms0 vs])
  assume "b < B" "i < H" "j < W"
  then have r: "in_range [B, H, W] [b, i, j]" by (simp add: in_range3)
  have "elems omask [b, i, j] = (elems ?om0 [b, i, j] \<and> elems valid [b, i, j])"
    by (rule inplace_and3(2)[OF om oms0 vs r])
  also have "elems valid [b, i, j] = elems (tmap (\<lambda>m. m > thr) rast_mask) [b, i, j]"
    by (rule reshape_infer3(2)[OF v ts r])
  also have "\<dots> = (thr < elems rimg [b, C - 1, i, j])"
    by (simp add: tmap_def last_channel4(3)[OF rm s1])
  finally show "elems omask [b, i, j] = (elems sdepth [b, i, j] < 1 \<and> 0.9999 < elems rimg [b, C - 1, i, j])"
    by (simp add: tmap_def thr_def)
qed

subsection \<open>The composite\<close>

lemma mul_mask4:
  assumes "broadcast2 (\<lambda>x m. x * of_bool m) img m1 = Inr r"
    and "shape img = [B, C, H, W]" "shape m1 = [B, 1, H, W]"
  shows "shape r = [B, C, H, W]"
    and "b < B \<Longrightarrow> c < C \<Longrightarrow> i < H \<Longrightarrow> j < W \<Longrightarrow>
         elems r [b, c, i, j] = elems img [b, c, i, j] * of_bool (elems m1 [b, 0, i, j])"
proof -
  have bs: "bshape [B, C, H, W] [B, 1, H, W] = Some [B, C, H, W]"
    by (simp add: bshape_def)
  from assms bs have req: "r = \<lparr>shape = [B, C, H, W],
      elems = \<lambda>idx. elems img (bidx [B, C, H, W] idx) * of_bool (elems m1 (bidx [B, 1, H, W] idx))\<rparr>"
    by (simp add: broadcast2_def)
  show "shape r = [B, C, H, W]" by (simp add: req)
  assume "b < B" "c < C" "i < H" "j < W"
  then have "bidx [B, C, H, W] [b, c, i, j] = [b, c, i, j]"
    and "bidx [B, 1, H, W] [b, c, i, j] = [b, 0, i, j]"
    by (auto simp: bidx_def)
  then show "elems r [b, c, i, j] = elems img [b, c, i, j] * of_bool (elems m1 [b, 0, i, j])"
    by (simp add: req)
qed

lemma mul_mask3:
  assumes "broadcast2 (\<lambda>x m. x * of_bool m) lin (omask :: btensor) = Inr (r :: rtensor)"
    and "shape omask = [B, H, W]" "b < B" "i < H" "j < W"
  shows "\<not> elems omask [b, i, j] \<Longrightarrow> elems r [b, i, j] = 0"
    and "shape lin = [B, H, W] \<Longrightarrow> shape r = [B, H, W]"
proof -
  from assms(1) obtain s where "bshape (shape lin) (shape omask) = Some s"
    and req: "r = \<lparr>shape = s,
      elems = \<lambda>idx. elems lin (bidx (shape lin) idx) * of_bool (elems omask (bidx (shape omask) idx))\<rparr>"
    by (auto simp: broadcast2_def split: option.splits)
  have "bidx (shape omask) [b, i, j] = [b, i, j]"
    using assms(2-5) by (simp add: bidx_in_range in_range3)
  then show "\<not> elems omask [b, i, j] \<Longrightarrow> elems r [b, i, j] = 0"
    by (simp add: req)
  assume "shape lin = [B, H, W]"
  with assms(1,2) show "shape r = [B, H, W]"
    by (auto simp: broadcast2_def bshape_same)
qed

lemma unsqueeze1_3:
  assumes "unsqueeze 1 t = Inr r" "shape t = [B, H, W]"
  shows "shape r = [B, 1, H, W]" "elems r [b, c, i, j] = elems t [b, i, j]"
  using assms by (auto simp: unsqueeze_def ndim_def split: if_splits)

lemma warp_mask_result:
  assumes run: "warp_mask a H W rimg sdepth = (tr, Inr (colour, omask))"
    and s1: "shape rimg = [B, C, H, W]" and s2: "shape sdepth = [B, H, W]"
  shows "tr = [] \<and> shape colour = [B, C - (if arg_mask a \<noteq> None then 1 else 0), H, W]
     \<and> elems colour = elems rimg \<and> shape omask = [B, H, W]
     \<and> (b < B \<longrightarrow> i < H \<longrightarrow> j < W \<longrightarrow> elems omask [b, i, j]
           = (elems sdepth [b, i, j] < 1
              \<and> (arg_mask a \<noteq> None \<longrightarrow> 0.9999 < elems rimg [b, C - 1, i, j])))"
proof (cases "arg_mask a")
  case None
  with warp_mask_none[OF run None] s1 s2 show ?thesis
    by (simp add: tmap_def)
next
  case (Some m)
  from warp_mask_some[OF run Some s1 s2] Some show ?thesis
    by simp
qed

lemma unpack_rast_Inr:
  assumes "unpack_rast rd (rimg, sdepth, rdr) = (tr, Inr (x, y, z))"
  shows "tr = [] \<and> x = rimg \<and> y = sdepth \<and> z = rdr"
  using assms by (auto simp: unpack_rast_def traced_simps split: if_splits option.splits)

lemma strip_uv:
  assumes "(if c then t_torch (drop_channels 2 colour) else t_return colour) = (tr, Inr col2)"
    and "shape colour = [B, C, H, W]"
  shows "shape col2 = [B, C - (if c then 2 else 0), H, W]" "elems col2 = elems colour"
  using assms drop_channels4[of 2 colour col2 B C H W]
  by (auto split: if_splits elim!: t_torch_InrE t_return_InrE)

lemma warp_composite_result:
  fixes env :: "'c env"
  assumes run: "warp_composite env a H W (rimg, sdepth, rdr) = (tr, Inr res)"
    and s1: "shape rimg = [B, C, H, W]" and s2: "shape sdepth = [B, H, W]"
    and r: "b < B" "i < H" "j < W"
  shows "shape (out_mask res) = [B, H, W]"
    and "elems (out_mask res) [b, i, j]
           = (elems sdepth [b, i, j] < 1
              \<and> (arg_mask a \<noteq> None \<longrightarrow> 0.9999 < elems rimg [b, C - 1, i, j]))"
    and "shape (out_image res) = [B, C - helper_channels a, H, W]"
    and "c < C - helper_channels a \<Longrightarrow>
         elems (out_image res) [b, c, i, j]
           = elems rimg [b, c, i, j] * of_bool (elems (out_mask res) [b, i, j])"
    and "\<not> elems (out_mask res) [b, i, j] \<Longrightarrow> elems (out_depth res) [b, i, j] = 0"
proof -
  define f where "f = (\<lambda>(x :: real) (m :: bool). x * of_bool m)"
  define strip where "strip = (arg_return_dr a \<and> arg_image a \<noteq> None)"
  have "\<exists>(tr1 :: 'c call list) colour omask col2 (tr2 :: 'c call list) lin odepth mask1 oimage.
      warp_mask a H W rimg sdepth = (tr1, Inr (colour, omask))
    \<and> (if strip then t_torch (drop_channels 2 colour) else t_return colour) = (tr2, Inr col2)
    \<and> broadcast2 f lin omask = Inr odepth
    \<and> unsqueeze 1 omask = Inr mask1
    \<and> broadcast2 f col2 mask1 = Inr oimage
    \<and> out_image res = oimage \<and> out_depth res = odepth \<and> out_mask res = omask"
    using run unfolding warp_composite_def f_def[symmetric] strip_def[symmetric]
    by (cases strip)
       (auto elim!: t_bind_InrE simp: t_torch_def t_return_def t_call_def
             dest!: unpack_rast_Inr split: prod.splits)
  then obtain tr1 :: "'c call list" and colour omask col2 and tr2 :: "'c call list"
      and lin odepth mask1 oimage where
    wm: "warp_mask a H W rimg sdepth = (tr1, Inr (colour, omask))"
    and c2: "(if arg_return_dr a \<and> arg_image a \<noteq> None
              then t_torch (drop_channels 2 colour) else t_return colour) = (tr2, Inr col2)"
    and od: "broadcast2 (\<lambda>x m. x * of_bool m) lin omask = Inr odepth"
    and m1: "unsqueeze 1 omask = Inr mask1"
    and oi: "broadcast2 (\<lambda>x m. x * of_bool m) col2 mask1 = Inr oimage"
    and res: "out_image res = oimage" "out_depth res = odepth" "out_mask res = omask"
    unfolding f_def strip_def by blast
  from warp_mask_result[OF wm s1 s2, of b i j] r have
    wmr: "tr1 = []" "shape colour = [B, C - (if arg_mask a \<noteq> None then 1 else 0), H, W]"
      "elems colour = elems rimg" "shape omask = [B, H, W]"
    and wme: "elems omask [b, i, j]
           = (elems sdepth [b, i, j] < 1
              \<and> (arg_mask a \<noteq> None \<longrightarrow> 0.9999 < elems rimg [b, C - 1, i, j]))"
    by blast+
  show "shape (out_mask res) = [B, H, W]" by (simp add: res wmr(4))
  show "elems (out_mask res) [b, i, j]
           = (elems sdepth [b, i, j] < 1
              \<and> (arg_mask a \<noteq> None \<longrightarrow> 0.9999 < elems rimg [b, C - 1, i, j]))"
    using wme by (simp add: res)
  have c2s: "shape col2 = [B, C - helper_channels a, H, W]" and c2e: "elems col2 = elems rimg"
    using strip_uv[OF c2 wmr(2)] wmr(3) by (simp_all add: helper_channels_def)
  note m1r = unsqueeze1_3[OF m1 wmr(4)]
  note oir = mul_mask4[OF oi c2s m1r(1)]
  show "shape (out_image res) = [B, C - helper_channels a, H, W]" by (simp add: res oir(1))
  show "elems (out_image res) [b, c, i, j]
           = elems rimg [b, c, i, j] * of_bool (elems (out_mask res) [b, i, j])"
    if "c < C - helper_channels a"
    using oir(2)[OF r(1) that r(2,3)] by (simp add: res c2e m1r(2))
  show "elems (out_depth res) [b, i, j] = 0" if "\<not> elems (out_mask res) [b, i, j]"
    using mul_mask3(1)[OF od wmr(4) r] that by (simp add: res)
qed

lemma warp_composite_depth_shape:
  fixes env :: "'c env"
  assumes run: "warp_composite env a H W (rimg, sdepth, rdr) = (tr, Inr res)"
    and s1: "shape rimg = [B, C, H, W]" and s2: "shape sdepth = [B, H, W]"
    and lin: "\<And>lin. linearize_depth env sdepth (arg_near a) (arg_far a) = Inr lin \<Longrightarrow> shape lin = [B, H, W]"
  shows "shape (out_depth res) = [B, H, W]"
proof -
  define f where "f = (\<lambda>(x :: real) (m :: bool). x * of_bool m)"
  have "\<exists>(tr1 :: 'c call list) colour omask lin odepth.
      warp_mask a H W rimg sdepth = (tr1, Inr (colour, omask))
    \<and> linearize_depth env sdepth (arg_near a) (arg_far a) = Inr lin
    \<and> broadcast2 f lin omask = Inr odepth \<and> out_depth res = odepth"
    using run unfolding warp_composite_def f_def[symmetric]
    by (auto elim!: t_bind_InrE simp: t_torch_def t_return_def t_call_def
             dest!: unpack_rast_Inr split: prod.splits)
  then obtain tr1 :: "'c call list" and colour omask lin odepth where
    wm: "warp_mask a H W rimg sdepth = (tr1, Inr (colour, omask))"
    and ld: "linearize_depth env sdepth (arg_near a) (arg_far a) = Inr lin"
    and od: "broadcast2 f lin omask = Inr odepth" and res: "out_depth res = odepth"
    by blast
  from warp_mask_result[OF wm s1 s2] have oms: "shape omask = [B, H, W]" by blast
  from od lin[OF ld] oms show ?thesis
    by (auto simp: res broadcast2_def bshape_same)
qed

lemma warp_composite_of_run:
  fixes env :: "'c env"
  assumes "warp_image_by_depth env ctx a = (tr, Inr res)"
    and "warp_rasterize env ctx a = (tr1, Inr rast)"
  shows "\<exists>tr2. warp_composite env a (out_height a) (out_width a) rast = (tr2, Inr res)"
  using assms unfolding warp_image_by_depth_def
  by (auto elim!: t_bind_InrE)

subsection \<open>The depth that is unprojected, and the attribute channels\<close>

lemma flatten1_3:
  assumes "flatten 1 t = Inr r" "shape t = [B, H, W]"
  shows "shape r = [B, H * W]"
    and "i < H \<Longrightarrow> j < W \<Longrightarrow> b < B \<Longrightarrow> elems r [b, i * W + j] = elems t [b, i, j]"
proof -
  from assms have req: "r = \<lparr>shape = [B, H * W],
      elems = \<lambda>idx. elems t (unravel [B, H, W] (ravel [B, H * W] idx))\<rparr>"
    by (auto simp: flatten_def reshape_def ndim_def numel_def split: if_splits)
  show "shape r = [B, H * W]" by (simp add: req)
  assume "i < H" "j < W" "b < B"
  then have ir: "in_range [B, H, W] [b, i, j]" by (simp add: in_range3)
  have "ravel [B, H * W] [b, i * W + j] = ravel [B, H, W] [b, i, j]"
    by simp
  then show "elems r [b, i * W + j] = elems t [b, i, j]"
    using unravel_ravel[OF ir] by (simp add: req del: unravel.simps ravel.simps)
qed

lemma warp_mesh_masked_depth:
  fixes env :: "'c env"
  assumes pad: "\<not> arg_padding a > 0" and m: "arg_mask a = Some m"
    and sd: "shape (arg_depth a) = [B, H, W]" and sm: "shape m = [B, H, W]"
    and run: "warp_mesh env a width height es ks = (tr, r)"
    and call: "Call_unproject_cv uv d e k \<in> set tr"
    and ix: "b < B" "i < H" "j < W"
  shows "shape d = [B, H * W]"
    and "elems d [b, i * W + j] = (if elems m [b, i, j] then elems (arg_depth a) [b, i, j] else arg_far a)"
proof -
  define f where "f = (\<lambda>valid (x :: real). if valid then x else arg_far a)"
  have "\<exists>depth. broadcast2 f m (arg_depth a) = Inr depth \<and> flatten 1 depth = Inr d"
    using run call pad m unfolding warp_mesh_def f_def[symmetric]
    by (auto simp: t_bind_def t_call_def t_torch_def t_return_def
             split: prod.splits sum.splits if_splits)
  then obtain depth where w: "broadcast2 f m (arg_depth a) = Inr depth"
    and fl: "flatten 1 depth = Inr d"
    by blast
  from w sd sm have ds: "shape depth = [B, H, W]"
    and de: "\<And>idx. elems depth idx = f (elems m (bidx [B, H, W] idx)) (elems (arg_depth a) (bidx [B, H, W] idx))"
    by (auto simp: broadcast2_def bshape_same)
  show "shape d = [B, H * W]" by (rule flatten1_3(1)[OF fl ds])
  have "bidx [B, H, W] [b, i, j] = [b, i, j]"
    using ix by (simp add: bidx_in_range in_range3)
  then show "elems d [b, i * W + j] = (if elems m [b, i, j] then elems (arg_depth a) [b, i, j] else arg_far a)"
    using flatten1_3(2)[OF fl ds ix(2,3,1)] by (simp add: de f_def)
qed

lemma cat_last_channels: "cat_last x y = Inr z \<Longrightarrow> last (shape z) = last (shape x) + last (shape y)"
  by (auto simp: cat_last_def split: if_splits)

lemma expand3_channels: "expand3 n uv = Inr u \<Longrightarrow> last (shape u) = last (shape uv)"
  by (cases "shape uv"; cases "tl (shape uv)")
     (auto simp: expand3_def ndim_def split: if_splits)

lemma mask_attr_channels:
  assumes "mask_attr m = (tr, Inr ma)"
  shows "last (shape ma) = 1"
  using assms unfolding mask_attr_def
  by (auto elim!: t_bind_InrE t_torch_InrE simp: unsqueeze_def ndim_def split: if_splits)

lemma image_attr_channels:
  assumes "permute [0, 2, 3, Suc 0] im = Inr p" "flatten (Suc 0) p = Inr x"
    and "shape im = [B, C, H, W]"
  shows "last (shape x) = C"
  using assms
  by (auto simp: permute_def flatten_def reshape_def ndim_def split: if_splits)

lemma warp_attr_channels:
  fixes tr :: "'c call list"
  assumes run: "warp_attr a n uv (Some im) = (tr, Inr (attr, da))"
    and si: "shape im = [B, C, H, W]" and su: "last (shape uv) = 2"
  shows "last (shape attr)
           = C + (if arg_return_dr a then 2 else 0) + (if arg_mask a \<noteq> None then 1 else 0)"
  using run unfolding warp_attr_def
  by (cases "arg_return_dr a"; cases "arg_mask a")
     (auto elim!: t_bind_InrE t_torch_InrE t_return_InrE
           dest!: mask_attr_channels cat_last_channels expand3_channels
           dest: image_attr_channels[OF _ _ si] simp: su)

subsection \<open>Worked runs\<close>

lemmas eval_simps = warp_defs traced_simps demo_simps tensor_simps more_tensor_simps demo_args_def
  demo_depth_def demo_mask_def demo_image_def half_raw_def edge_aa_def depth_remap_def
  edge_args_def strip_args_def upt_rec Let_def

lemma edge_rasterize:
  "\<exists>tr1 rimg sdepth rdr.
      warp_rasterize (demo_env half_raw edge_aa) demo_ctx edge_args = (tr1, Inr (rimg, sdepth, rdr))
    \<and> shape rimg = [1, 3, 1, 2] \<and> shape sdepth = [1, 1, 2]
    \<and> elems rimg [0, 2, 0, 0] = 0.9999 \<and> elems rimg [0, 2, 0, 1] = 0.99991
    \<and> elems sdepth [0, 0, 0] = 3 / 4 \<and> elems sdepth [0, 0, 1] = 3 / 4"
  by (simp add: eval_simps)

lemma edge_run:
  "\<exists>tr res. warp_image_by_depth (demo_env half_raw edge_aa) demo_ctx edge_args = (tr, Inr res)"
  by (simp add: eval_simps)

lemma strip_rasterize:
  "\<exists>tr1 rimg sdepth rdr.
      warp_rasterize (demo_env half_raw no_aa) demo_ctx strip_args = (tr1, Inr (rimg, sdepth, rdr))
    \<and> shape rimg = [1, 6, 1, 2] \<and> shape sdepth = [1, 1, 2]
    \<and> elems rimg [0, 5, 0, 0] = 1 \<and> elems rimg [0, 5, 0, 1] = 0
    \<and> elems rimg [0, 1, 0, 0] = 11
    \<and> elems sdepth [0, 0, 0] = 3 / 4 \<and> elems sdepth [0, 0, 1] = 3 / 4"
  by (simp add: eval_simps)

lemma strip_run:
  "\<exists>tr res. warp_image_by_depth (demo_env half_raw no_aa) demo_ctx strip_args = (tr, Inr res)"
  by (simp add: eval_simps)

lemma demo_sizes:
  "out_height edge_args = 1" "out_width edge_args = 2" "arg_mask edge_args \<noteq> None"
  "out_height strip_args = 1" "out_width strip_args = 2" "arg_mask strip_args \<noteq> None"
  "helper_channels strip_args = 3"
  by (simp_all add: out_height_def out_width_def edge_args_def strip_args_def demo_args_def
        demo_depth_def tensor3_def helper_channels_def)

subsection \<open>The claims about the output of \<^verbatim>\<open>warp_image_by_depth\<close>\<close>

text \<open>
  Claim C3.  Let a call return, let its rasterization have returned the image \<open>rimg\<close> of shape
  (B, C, height, width) and the screen depth \<open>sdepth\<close> of shape (B, height, width).  Then the
  returned mask is true at a pixel exactly when the screen depth there is below 1 and, if a
  source mask was given, the rasterized mask channel (the last channel of \<open>rimg\<close>) is above
  0.9999 there.  In particular a mask channel value of exactly 0.9999 makes the pixel invalid,
  and 0.99991 makes it valid when the depth is below 1.  (Values are real numbers here.)
\<close>

theorem warp_output_mask:
  fixes env :: "'c env"
  assumes "warp_image_by_depth env ctx a = (tr, Inr res)"
    and "warp_rasterize env ctx a = (tr1, Inr (rimg, sdepth, rdr))"
    and "shape rimg = [B, C, out_height a, out_width a]"
    and "shape sdepth = [B, out_height a, out_width a]"
    and "b < B" "i < out_height a" "j < out_width a"
  shows "elems (out_mask res) [b, i, j]
           = (elems sdepth [b, i, j] < 1
              \<and> (arg_mask a \<noteq> None \<longrightarrow> 0.9999 < elems rimg [b, C - 1, i, j]))
       \<and> (arg_mask a \<noteq> None \<and> elems rimg [b, C - 1, i, j] = 0.9999 \<longrightarrow>
            \<not> elems (out_mask res) [b, i, j])
       \<and> (elems sdepth [b, i, j] < 1 \<and> elems rimg [b, C - 1, i, j] = 0.99991 \<longrightarrow>
            elems (out_mask res) [b, i, j])"
proof -
  from warp_composite_of_run[OF assms(1,2)] obtain tr2 where
    c: "warp_composite env a (out_height a) (out_width a) (rimg, sdepth, rdr) = (tr2, Inr res)"
    by blast
  have m: "elems (out_mask res) [b, i, j]
           = (elems sdepth [b, i, j] < 1
              \<and> (arg_mask a \<noteq> None \<longrightarrow> 0.9999 < elems rimg [b, C - 1, i, j]))"
    by (rule warp_composite_result(2)[OF c assms(3-7)])
  show ?thesis unfolding m by simp
qed

theorem warp_output_mask_witness:
  "\<exists>tr res tr1 rimg sdepth rdr.
      warp_image_by_depth (demo_env half_raw edge_aa) demo_ctx edge_args = (tr, Inr res)
    \<and> warp_rasterize (demo_env half_raw edge_aa) demo_ctx edge_args = (tr1, Inr (rimg, sdepth, rdr))
    \<and> shape rimg = [1, 3, out_height edge_args, out_width edge_args]
    \<and> shape sdepth = [1, out_height edge_args, out_width edge_args]
    \<and> arg_mask edge_args \<noteq> None
    \<and> elems sdepth [0, 0, 0] < 1 \<and> elems rimg [0, 2, 0, 0] = 0.9999
    \<and> \<not> elems (out_mask res) [0, 0, 0]
    \<and> elems sdepth [0, 0, 1] < 1 \<and> elems rimg [0, 2, 0, 1] = 0.99991
    \<and> elems (out_mask res) [0, 0, 1]"
proof -
  from edge_run obtain tr res where
    run: "warp_image_by_depth (demo_env half_raw edge_aa) demo_ctx edge_args = (tr, Inr res)"
    by blast
  from edge_rasterize obtain tr1 rimg sdepth rdr where
    rast: "warp_rasterize (demo_env half_raw edge_aa) demo_ctx edge_args
             = (tr1, Inr (rimg, sdepth, rdr))"
    and s: "shape rimg = [1, 3, 1, 2]" "shape sdepth = [1, 1, 2]"
    and e: "elems rimg [0, 2, 0, 0] = 0.9999" "elems rimg [0, 2, 0, 1] = 0.99991"
           "elems sdepth [0, 0, 0] = 3 / 4" "elems sdepth [0, 0, 1] = 3 / 4"
    by blast
  have s': "shape rimg = [1, 3, out_height edge_args, out_width edge_args]"
    "shape sdepth = [1, out_height edge_args, out_width edge_args]"
    by (simp_all add: s demo_sizes)
  have r: "(0::nat) < 1" "0 < out_height edge_args" "0 < out_width edge_args"
    "1 < out_width edge_args"
    by (simp_all add: demo_sizes)
  from warp_output_mask[OF run rast s' r(1) r(2) r(3)] e demo_sizes(3)
  have m0: "\<not> elems (out_mask res) [0, 0, 0]" by simp
  from warp_output_mask[OF run rast s' r(1) r(2) r(4)] e
  have m1: "elems (out_mask res) [0, 0, 1]" by simp
  from run rast s' m0 m1 e demo_sizes(3) show ?thesis
    by (intro exI[of _ tr] exI[of _ res] exI[of _ tr1] exI[of _ rimg] exI[of _ sdepth]
          exI[of _ rdr]) simp
qed

text \<open>
  Claim C4.  Under the same conditions the returned image has the channels of \<open>rimg\<close> without
  the helper channels at its end (the mask channel when a mask was given, the two uv channels
  when derivatives were asked for and an image was given), each multiplied by the returned
  mask.  So at every pixel where the returned mask is false, the returned depth and every
  channel of the returned image are exactly 0.  The returned depth has the shape of the screen
  depth when the linearization keeps that shape.
\<close>

theorem warp_invalid_pixels_zero:
  fixes env :: "'c env"
  assumes "warp_image_by_depth env ctx a = (tr, Inr res)"
    and "warp_rasterize env ctx a = (tr1, Inr (rimg, sdepth, rdr))"
    and "shape rimg = [B, C, out_height a, out_width a]"
    and "shape sdepth = [B, out_height a, out_width a]"
    and "b < B" "i < out_height a" "j < out_width a"
  shows "shape (out_image res) = [B, C - helper_channels a, out_height a, out_width a]
       \<and> (\<forall>c < C - helper_channels a.
             elems (out_image res) [b, c, i, j]
               = elems rimg [b, c, i, j] * of_bool (elems (out_mask res) [b, i, j]))
       \<and> (\<not> elems (out_mask res) [b, i, j] \<longrightarrow>
             elems (out_depth res) [b, i, j] = 0
           \<and> (\<forall>c < C - helper_channels a. elems (out_image res) [b, c, i, j] = 0))
       \<and> ((\<forall>lin. linearize_depth env sdepth (arg_near a) (arg_far a) = Inr lin \<longrightarrow>
                   shape lin = shape sdepth) \<longrightarrow>
             shape (out_depth res) = [B, out_height a, out_width a])"
proof -
  from warp_composite_of_run[OF assms(1,2)] obtain tr2 where
    c: "warp_composite env a (out_height a) (out_width a) (rimg, sdepth, rdr) = (tr2, Inr res)"
    by blast
  note r = warp_composite_result[OF c assms(3-7)]
  have e: "elems (out_image res) [b, c, i, j]
               = elems rimg [b, c, i, j] * of_bool (elems (out_mask res) [b, i, j])"
    if "c < C - helper_channels a" for c
    using r(4)[OF that] .
  have d: "shape (out_depth res) = [B, out_height a, out_width a]"
    if h: "\<forall>lin. linearize_depth env sdepth (arg_near a) (arg_far a) = Inr lin \<longrightarrow>
                   shape lin = shape sdepth"
  proof (rule warp_composite_depth_shape[OF c assms(3,4)])
    fix lin assume "linearize_depth env sdepth (arg_near a) (arg_far a) = Inr lin"
    with h have "shape lin = shape sdepth" by blast
    then show "shape lin = [B, out_height a, out_width a]" by (simp only: assms(4))
  qed
  have z: "elems (out_image res) [b, c, i, j] = 0"
    if "\<not> elems (out_mask res) [b, i, j]" "c < C - helper_channels a" for c
    using e[OF that(2)] that(1) by simp
  show ?thesis
  proof (intro conjI allI impI)
    show "shape (out_image res) = [B, C - helper_channels a, out_height a, out_width a]"
      by (rule r(3))
  qed (use e r(5) z d in blast)+
qed

theorem warp_invalid_pixels_zero_witness:
  "\<exists>tr res tr1 rimg sdepth rdr.
      warp_image_by_depth (demo_env half_raw no_aa) demo_ctx strip_args = (tr, Inr res)
    \<and> warp_rasterize (demo_env half_raw no_aa) demo_ctx strip_args = (tr1, Inr (rimg, sdepth, rdr))
    \<and> shape rimg = [1, 6, out_height strip_args, out_width strip_args]
    \<and> shape sdepth = [1, out_height strip_args, out_width strip_args]
    \<and> helper_channels strip_args = 3
    \<and> shape (out_image res) = [1, 3, 1, 2]
    \<and> \<not> elems (out_mask res) [0, 0, 1]
    \<and> elems (out_depth res) [0, 0, 1] = 0
    \<and> elems (out_image res) [0, 0, 0, 1] = 0
    \<and> elems (out_image res) [0, 1, 0, 1] = 0
    \<and> elems (out_image res) [0, 2, 0, 1] = 0
    \<and> elems (out_mask res) [0, 0, 0]
    \<and> elems (out_image res) [0, 1, 0, 0] = 11"
proof -
  from strip_run obtain tr res where
    run: "warp_image_by_depth (demo_env half_raw no_aa) demo_ctx strip_args = (tr, Inr res)"
    by blast
  from strip_rasterize obtain tr1 rimg sdepth rdr where
    rast: "warp_rasterize (demo_env half_raw no_aa) demo_ctx strip_args
             = (tr1, Inr (rimg, sdepth, rdr))"
    and s: "shape rimg = [1, 6, 1, 2]" "shape sdepth = [1, 1, 2]"
    and e: "elems rimg [0, 5, 0, 0] = 1" "elems rimg [0, 5, 0, 1] = 0"
           "elems rimg [0, 1, 0, 0] = 11"
           "elems sdepth [0, 0, 0] = 3 / 4" "elems sdepth [0, 0, 1] = 3 / 4"
    by blast
  have s': "shape rimg = [1, 6, out_height strip_args, out_width strip_args]"
    "shape sdepth = [1, out_height strip_args, out_width strip_args]"
    by (simp_all add: s demo_sizes)
  have r: "(0::nat) < 1" "0 < out_height strip_args" "0 < out_width strip_args"
    "1 < out_width strip_args"
    by (simp_all add: demo_sizes)
  from warp_composite_of_run[OF run rast] obtain tr2 where
    c: "warp_composite (demo_env half_raw no_aa) strip_args (out_height strip_args)
          (out_width strip_args) (rimg, sdepth, rdr) = (tr2, Inr res)"
    by blast
  from warp_composite_result(2)[OF c s' r(1) r(2) r(4)] e demo_sizes(6)
  have m1: "\<not> elems (out_mask res) [0, 0, 1]" by simp
  from warp_composite_result(2)[OF c s' r(1) r(2) r(3)] e demo_sizes(6)
  have m0: "elems (out_mask res) [0, 0, 0]" by simp
  note z1 = warp_invalid_pixels_zero[OF run rast s' r(1) r(2) r(4)]
  note z0 = warp_invalid_pixels_zero[OF run rast s' r(1) r(2) r(3)]
  from z1 have sh: "shape (out_image res) = [1, 3, 1, 2]"
    by (simp add: demo_sizes)
  from z1 m1 have d: "elems (out_depth res) [0, 0, 1] = 0"
    and i: "\<And>c. c < 3 \<Longrightarrow> elems (out_image res) [0, c, 0, 1] = 0"
    by (simp_all add: demo_sizes)
  from z0 m0 e have v: "elems (out_image res) [0, 1, 0, 0] = 11"
    by (simp add: demo_sizes)
  from run rast s' sh m1 m0 d i[of 0] i[of 1] i[of 2] v demo_sizes(7) show ?thesis
    by (intro exI[of _ tr] exI[of _ res] exI[of _ tr1] exI[of _ rimg] exI[of _ sdepth]
          exI[of _ rdr]) simp
qed

end
